theory Spec2Isabelle
  imports Main "HOL-Library.Word"
begin

unbundle bit_operations_syntax

section \<open>Signals, slices and concatenation\<close>

text \<open>
  The CMSIS-DAP core of \<^verbatim>\<open>orbtrace/nmigen/cmsis_dap.py\<close> is a clocked circuit described in
  nMigen. A signal of width \<open>w\<close> is a \<open>w word\<close>, a one-bit signal a \<open>bool\<close>. The slices
  \<^verbatim>\<open>bit_select(off, w)\<close> and \<^verbatim>\<open>word_select(i, w)\<close> read \<open>w\<close> bits from bit \<open>off\<close>
  (from bit \<open>i * w\<close>); the width is the length of the result type. Reading beyond the signal
  gives zeros, assigning beyond the signal is dropped, as in the hardware.
\<close>

definition bit_select :: "'a::len word \<Rightarrow> nat \<Rightarrow> 'b::len word" where
  "bit_select v off = ucast (drop_bit off v)"

definition word_select :: "'a::len word \<Rightarrow> nat \<Rightarrow> 'b::len word" where
  "word_select v i = bit_select v (i * LENGTH('b))"

definition bit_assign :: "nat \<Rightarrow> 'b::len word \<Rightarrow> 'a::len word \<Rightarrow> 'a word" where
  "bit_assign off x v = (v AND NOT (push_bit off (mask LENGTH('b)))) OR push_bit off (ucast x)"

definition word_assign :: "nat \<Rightarrow> 'b::len word \<Rightarrow> 'a::len word \<Rightarrow> 'a word" where
  "word_assign i x v = bit_assign (i * LENGTH('b)) x v"

text \<open>\<^verbatim>\<open>Cat(lo, hi)\<close>: the first operand occupies the low bits.\<close>

definition Cat :: "'a::len word \<Rightarrow> 'b::len word \<Rightarrow> 'c::len word" where
  "Cat lo hi = ucast lo OR push_bit LENGTH('a) (ucast hi)"

definition of_bit :: "bool \<Rightarrow> 1 word" where
  "of_bit b = (if b then 1 else 0)"

section \<open>Configuration, protocol messages and engine commands\<close>

abbreviation (input) DAP_CONNECT_DEFAULT :: nat where "DAP_CONNECT_DEFAULT \<equiv> 1"
abbreviation (input) DAP_CAPABILITIES :: "8 word" where "DAP_CAPABILITIES \<equiv> 0x01"
abbreviation (input) DAP_TD_TIMER_FREQ :: "32 word" where "DAP_TD_TIMER_FREQ \<equiv> 0x3B9ACA00"
abbreviation (input) DAP_TB_SIZE :: "32 word" where "DAP_TB_SIZE \<equiv> 500"
abbreviation (input) DAP_MAX_PACKET_COUNT :: "8 word" where "DAP_MAX_PACKET_COUNT \<equiv> 1"
abbreviation (input) DAP_V1_MAX_PACKET_SIZE :: "16 word" where "DAP_V1_MAX_PACKET_SIZE \<equiv> 64"
abbreviation (input) DAP_V2_MAX_PACKET_SIZE :: "16 word" where "DAP_V2_MAX_PACKET_SIZE \<equiv> 500"

text \<open>The version string \<^verbatim>\<open>Cat(0x31, 0x2e, 0x30, 0x30, 0)\<close>, first byte lowest.\<close>

abbreviation (input) DAP_VERSION_STRING :: "40 word" where "DAP_VERSION_STRING \<equiv> 0x0030302E31"

abbreviation (input) DAP_Info :: "8 word" where "DAP_Info \<equiv> 0x00"
abbreviation (input) DAP_HostStatus :: "8 word" where "DAP_HostStatus \<equiv> 0x01"
abbreviation (input) DAP_Connect :: "8 word" where "DAP_Connect \<equiv> 0x02"
abbreviation (input) DAP_Disconnect :: "8 word" where "DAP_Disconnect \<equiv> 0x03"
abbreviation (input) DAP_TransferConfigure :: "8 word" where "DAP_TransferConfigure \<equiv> 0x04"
abbreviation (input) DAP_Transfer :: "8 word" where "DAP_Transfer \<equiv> 0x05"
abbreviation (input) DAP_TransferBlock :: "8 word" where "DAP_TransferBlock \<equiv> 0x06"
abbreviation (input) DAP_TransferAbort :: "8 word" where "DAP_TransferAbort \<equiv> 0x07"
abbreviation (input) DAP_WriteABORT :: "8 word" where "DAP_WriteABORT \<equiv> 0x08"
abbreviation (input) DAP_Delay :: "8 word" where "DAP_Delay \<equiv> 0x09"
abbreviation (input) DAP_ResetTarget :: "8 word" where "DAP_ResetTarget \<equiv> 0x0A"
abbreviation (input) DAP_SWJ_Pins :: "8 word" where "DAP_SWJ_Pins \<equiv> 0x10"
abbreviation (input) DAP_SWJ_Clock :: "8 word" where "DAP_SWJ_Clock \<equiv> 0x11"
abbreviation (input) DAP_SWJ_Sequence :: "8 word" where "DAP_SWJ_Sequence \<equiv> 0x12"
abbreviation (input) DAP_SWD_Configure :: "8 word" where "DAP_SWD_Configure \<equiv> 0x13"
abbreviation (input) DAP_JTAG_Sequence :: "8 word" where "DAP_JTAG_Sequence \<equiv> 0x14"
abbreviation (input) DAP_JTAG_Configure :: "8 word" where "DAP_JTAG_Configure \<equiv> 0x15"
abbreviation (input) DAP_JTAG_IDCODE :: "8 word" where "DAP_JTAG_IDCODE \<equiv> 0x16"
abbreviation (input) DAP_SWO_Transport :: "8 word" where "DAP_SWO_Transport \<equiv> 0x17"
abbreviation (input) DAP_SWO_Mode :: "8 word" where "DAP_SWO_Mode \<equiv> 0x18"
abbreviation (input) DAP_SWO_Baudrate :: "8 word" where "DAP_SWO_Baudrate \<equiv> 0x19"
abbreviation (input) DAP_SWO_Control :: "8 word" where "DAP_SWO_Control \<equiv> 0x1A"
abbreviation (input) DAP_SWO_Status :: "8 word" where "DAP_SWO_Status \<equiv> 0x1B"
abbreviation (input) DAP_SWO_Data :: "8 word" where "DAP_SWO_Data \<equiv> 0x1C"
abbreviation (input) DAP_SWD_Sequence :: "8 word" where "DAP_SWD_Sequence \<equiv> 0x1D"
abbreviation (input) DAP_SWO_ExtendedStatus :: "8 word" where "DAP_SWO_ExtendedStatus \<equiv> 0x1E"
abbreviation (input) DAP_ExecuteCommands :: "8 word" where "DAP_ExecuteCommands \<equiv> 0x7F"
abbreviation (input) DAP_QueueCommands :: "8 word" where "DAP_QueueCommands \<equiv> 0x7E"
abbreviation (input) DAP_Invalid :: "8 word" where "DAP_Invalid \<equiv> 0xFF"

abbreviation (input) CMD_RESET :: "4 word" where "CMD_RESET \<equiv> 0"
abbreviation (input) CMD_PINS_WRITE :: "4 word" where "CMD_PINS_WRITE \<equiv> 1"
abbreviation (input) CMD_TRANSACT :: "4 word" where "CMD_TRANSACT \<equiv> 2"
abbreviation (input) CMD_SET_SWD :: "4 word" where "CMD_SET_SWD \<equiv> 3"
abbreviation (input) CMD_SET_JTAG :: "4 word" where "CMD_SET_JTAG \<equiv> 4"
abbreviation (input) CMD_SET_CLK :: "4 word" where "CMD_SET_CLK \<equiv> 7"
abbreviation (input) CMD_SET_CFG :: "4 word" where "CMD_SET_CFG \<equiv> 8"
abbreviation (input) CMD_WAIT :: "4 word" where "CMD_WAIT \<equiv> 9"
abbreviation (input) CMD_SET_TFR_CFG :: "4 word" where "CMD_SET_TFR_CFG \<equiv> 12"

section \<open>The registers of the core and its inputs\<close>

datatype fsm_state =
    IDLE | RESPOND | RxParams
  | DAP_SWJ_Pins_PROCESS | DAP_SWO_Data_PROCESS | DAP_SWJ_Sequence_PROCESS
  | DAP_JTAG_Sequence_PROCESS | DAP_Transfer_PROCESS | DAP_TransferBlock_PROCESS
  | DAP_SWD_Sequence_GetCount | DAP_TransferBlock_State
  | DAP_ExecuteCommands_GetNum | DAP_QueueCommands_GetNum
  | DAP_Wait_Done | DAP_Wait_Connect_Done | Error_State | ProtocolError

text \<open>
  What the core samples in one clock cycle. \<open>streamOut\<close> is the stream from the host (the USB
  OUT endpoint), \<open>streamIn_ready\<close> the readiness of the consumer of the response stream.
  The debug engine \<^verbatim>\<open>DBGIF\<close> is not part of the sources: the signals it drives are
  inputs here, with the widths the core uses them at (a three-bit \<open>ack\<close>).
\<close>

record inputs =
  streamOut_valid :: bool
  streamOut_first :: bool
  streamOut_last :: bool
  streamOut_payload :: "8 word"
  streamIn_ready :: bool
  isV2 :: bool
  dbgif_done :: bool
  dbgif_ack :: "3 word"
  dbgif_perr :: bool
  dbgif_dread :: "32 word"
  dbgif_again :: bool
  dbgif_ignoreData :: bool
  dbgif_postedMode :: bool

text \<open>
  The registers: the signals of \<^verbatim>\<open>CMSIS_DAP.__init__\<close> that are assigned in the \<open>usb\<close>
  clock domain, the state of the decoder FSM, the synchroniser \<open>done_cdc\<close>, the response RAM
  \<^verbatim>\<open>WideRam\<close> with its registered read port, the engine registers the core drives and the
  registers of the response stream.
\<close>

record state =
  fsm :: fsm_state
  running :: bool
  connected :: bool
  rxBlock :: "56 word"
  rxLen :: "3 word"
  rxedLen :: "3 word"
  txBlock :: "112 word"
  txLen :: "16 word"
  txedLen :: "16 word"
  busy :: bool
  txb :: "4 word"
  bitcount :: "3 word"
  tmsValue :: bool
  tdoCapture :: bool
  tdiData :: "8 word"
  tdoCount :: "7 word"
  seqCount :: "8 word"
  tckCycles :: "6 word"
  bytebits :: "4 word"
  dapIndex :: "8 word"
  transferCount :: "16 word"
  mask_reg :: "32 word"
  retries :: "16 word"
  matchretries :: "16 word"
  tfrReq :: "8 word"
  tfrData :: "32 word"
  ndev :: "8 word"
  irlength :: "8 word"
  waitRetry :: "16 word"
  matchRetry :: "16 word"
  done_cdc :: "2 word"
  tfrram_adr :: "12 word"
  tfrram_mem :: "12 word \<Rightarrow> 32 word"
  tfrram_dat_r :: "32 word"
  dbgif_command :: "4 word"
  dbgif_apndp :: bool
  dbgif_rnw :: bool
  dbgif_addr32 :: "2 word"
  dbgif_dwrite :: "32 word"
  dbgif_go :: bool
  dbgif_countdown :: "32 word"
  dbgif_pinsin :: "16 word"
  streamIn_payload :: "8 word"
  streamIn_valid :: bool
  streamIn_last :: bool


section \<open>One clock cycle\<close>

text \<open>
  Every handler below is one method of \<^verbatim>\<open>CMSIS_DAP\<close>. It reads the registers \<open>s\<close> of the
  current cycle (and the inputs \<open>i\<close>) and adds its synchronous assignments to \<open>n\<close>, the
  registers of the next cycle; \<open>n\<close> starts as \<open>s\<close>, and a later assignment to a register
  (or to a slice of it) wins over an earlier one. \<^verbatim>\<open>m.next\<close> is the assignment to \<open>fsm\<close>.
\<close>

definition dbg_done :: "state \<Rightarrow> bool" where
  "dbg_done s = (done_cdc s = 3)"

definition tfrram_we :: "state \<Rightarrow> bool" where
  "tfrram_we s = (done_cdc s = 2)"

text \<open>\<^verbatim>\<open>streamOut.ready\<close> is driven combinationally with \<^verbatim>\<open>~busy\<close>.\<close>

definition streamOut_ready :: "state \<Rightarrow> bool" where
  "streamOut_ready s = (\<not> busy s)"

definition RESP_Invalid :: "state \<Rightarrow> state" where
  "RESP_Invalid n =
     n\<lparr>txBlock := word_assign 0 DAP_Invalid (txBlock n), txLen := 1, busy := True, fsm := RESPOND\<rparr>"

definition RESP_Info :: "inputs \<Rightarrow> state \<Rightarrow> state \<Rightarrow> state" where
  "RESP_Info i s n0 =
     (let n = n0\<lparr>fsm := RESPOND\<rparr>; req = (word_select (rxBlock s) 1 :: 8 word) in
      if req \<in> {0x01, 0x02, 0x03, 0x05, 0x06} then
        n\<lparr>txLen := 2, txBlock := bit_assign 8 (0 :: 8 word) (txBlock n)\<rparr>
      else if req = 0x04 then
        n\<lparr>txLen := 7,
          txBlock := bit_assign 8 (Cat (5 :: 8 word) DAP_VERSION_STRING :: 48 word) (txBlock n)\<rparr>
      else if req = 0xF0 then
        n\<lparr>txLen := 3,
          txBlock := bit_assign 8 (Cat (1 :: 8 word) DAP_CAPABILITIES :: 16 word) (txBlock n)\<rparr>
      else if req = 0xF1 then
        n\<lparr>txLen := 6,
          txBlock := bit_assign 8 (Cat (8 :: 8 word) DAP_TD_TIMER_FREQ :: 48 word) (txBlock n)\<rparr>
      else if req = 0xFD then
        n\<lparr>txLen := 6,
          txBlock := bit_assign 8 (Cat (4 :: 8 word) DAP_TB_SIZE :: 40 word) (txBlock n)\<rparr>
      else if req = 0xFE then
        n\<lparr>txLen := 6,
          txBlock := bit_assign 8 (Cat (1 :: 8 word) DAP_MAX_PACKET_COUNT :: 16 word) (txBlock n)\<rparr>
      else if req = 0xFF then
        (if isV2 i then
           n\<lparr>txLen := 6,
             txBlock := bit_assign 8 (Cat (2 :: 8 word) DAP_V2_MAX_PACKET_SIZE :: 24 word) (txBlock n)\<rparr>
         else
           n\<lparr>txLen := 6,
             txBlock := bit_assign 8 (Cat (2 :: 8 word) DAP_V1_MAX_PACKET_SIZE :: 24 word) (txBlock n)\<rparr>)
      else RESP_Invalid n)"

definition RESP_HostStatus :: "state \<Rightarrow> state \<Rightarrow> state" where
  "RESP_HostStatus s n0 =
     (let n = n0\<lparr>fsm := RESPOND\<rparr>; ty = (word_select (rxBlock s) 1 :: 8 word) in
      if ty = 0x00 then n\<lparr>connected := ((word_select (rxBlock s) 2 :: 8 word) = 1)\<rparr>
      else if ty = 0x01 then n\<lparr>running := ((word_select (rxBlock s) 2 :: 8 word) = 1)\<rparr>
      else RESP_Invalid n)"

definition RESP_Connect_Setup :: "state \<Rightarrow> state \<Rightarrow> state" where
  "RESP_Connect_Setup s n0 =
     (let port = (word_select (rxBlock s) 1 :: 8 word);
          n1 = RESP_Invalid n0;
          n2 = (if DAP_CAPABILITIES AND 1 \<noteq> 0 then
                  (if (port = 0 \<and> DAP_CONNECT_DEFAULT = 1) \<or> port = 1 then
                     n1\<lparr>txBlock := word_assign 0
                           (Cat (word_select (rxBlock s) 0 :: 8 word) (1 :: 8 word) :: 16 word) (txBlock n1),
                        dbgif_command := CMD_SET_SWD, txLen := 2, dbgif_go := True,
                        fsm := DAP_Wait_Connect_Done\<rparr>
                   else n1)
                else n1)
      in if DAP_CAPABILITIES AND 2 \<noteq> 0 then
           (if (port = 0 \<and> DAP_CONNECT_DEFAULT = 2) \<or> port = 2 then
              n2\<lparr>txBlock := word_assign 0
                    (Cat (word_select (rxBlock s) 0 :: 8 word) (2 :: 8 word) :: 16 word) (txBlock n2),
                 dbgif_command := CMD_SET_JTAG, txLen := 2, dbgif_go := True,
                 fsm := DAP_Wait_Connect_Done\<rparr>
            else n2)
         else n2)"

definition RESP_Wait_Connect_Done :: "state \<Rightarrow> state \<Rightarrow> state" where
  "RESP_Wait_Connect_Done s n0 =
     (let n1 = (if dbgif_go s \<and> \<not> dbg_done s then n0\<lparr>dbgif_go := False\<rparr> else n0)
      in if \<not> dbgif_go s \<and> dbg_done s then n1\<lparr>fsm := RESPOND\<rparr> else n1)"

definition RESP_Wait_Done :: "inputs \<Rightarrow> state \<Rightarrow> state \<Rightarrow> state" where
  "RESP_Wait_Done i s n0 =
     (let n1 = (if dbgif_go s \<and> \<not> dbg_done s then n0\<lparr>dbgif_go := False\<rparr> else n0)
      in if \<not> dbgif_go s \<and> dbg_done s then
           n1\<lparr>txBlock := bit_assign 8 (of_bit (dbgif_perr i)) (txBlock n1), fsm := RESPOND\<rparr>
         else n1)"

definition RESP_Disconnect :: "state \<Rightarrow> state" where
  "RESP_Disconnect n = n\<lparr>running := False, connected := False, fsm := RESPOND\<rparr>"

definition RESP_WriteABORT :: "state \<Rightarrow> state \<Rightarrow> state" where
  "RESP_WriteABORT s n =
     n\<lparr>dbgif_command := CMD_TRANSACT, dbgif_apndp := False, dbgif_rnw := False, dbgif_addr32 := 0,
       dbgif_dwrite := bit_select (rxBlock s) 16, dbgif_go := True, fsm := DAP_Wait_Done\<rparr>"

definition RESP_Delay :: "state \<Rightarrow> state \<Rightarrow> state" where
  "RESP_Delay s n =
     n\<lparr>dbgif_dwrite := Cat (bit_select (rxBlock s) 16 :: 8 word) (bit_select (rxBlock s) 8 :: 8 word),
       dbgif_command := CMD_WAIT, dbgif_go := True, fsm := DAP_Wait_Done\<rparr>"

text \<open>\<^verbatim>\<open>Cat(C(0,8), C(0,7), C(1,1))\<close> is the 16-bit value with only its top bit set.\<close>

definition RESP_ResetTarget :: "state \<Rightarrow> state" where
  "RESP_ResetTarget n =
     n\<lparr>txBlock := bit_assign 8 (0x8000 :: 16 word) (txBlock n), txLen := 3,
       dbgif_command := CMD_RESET, dbgif_go := True, fsm := DAP_Wait_Done\<rparr>"

definition RESP_SWJ_Pins_Setup :: "state \<Rightarrow> state \<Rightarrow> state" where
  "RESP_SWJ_Pins_Setup s n =
     n\<lparr>dbgif_dwrite := Cat (0 :: 16 word) (bit_select (rxBlock s) 8 :: 16 word),
       dbgif_countdown := bit_select (txBlock s) 24, fsm := DAP_SWJ_Pins_PROCESS\<rparr>"

definition RESP_SWJ_Pins_Process :: "inputs \<Rightarrow> state \<Rightarrow> state \<Rightarrow> state" where
  "RESP_SWJ_Pins_Process i s n0 =
     (let n1 = (if dbg_done s then
                  n0\<lparr>txBlock := word_assign 1 (bit_select (dbgif_dread i) 0 :: 8 word) (txBlock n0),
                     txLen := 2\<rparr>
                else n0)
      in n1\<lparr>fsm := RESPOND\<rparr>)"

definition RESP_SWJ_Clock :: "state \<Rightarrow> state \<Rightarrow> state" where
  "RESP_SWJ_Clock s n =
     n\<lparr>dbgif_dwrite := bit_select (rxBlock s) 8, dbgif_command := CMD_SET_CLK, dbgif_go := True,
       fsm := DAP_Wait_Done\<rparr>"

definition RESP_SWJ_Sequence_Setup :: "state \<Rightarrow> state \<Rightarrow> state" where
  "RESP_SWJ_Sequence_Setup s n =
     n\<lparr>transferCount := (if (bit_select (rxBlock s) 8 :: 8 word) \<noteq> 0
                          then Cat (bit_select (rxBlock s) 8 :: 8 word) (0 :: 8 word) else 256),
       txb := 0, dbgif_dwrite := 0, dbgif_pinsin := 0xFF10, bitcount := 0,
       dbgif_command := CMD_PINS_WRITE, fsm := DAP_SWJ_Sequence_PROCESS\<rparr>"

text \<open>\<^verbatim>\<open>Cat(C(1,0), tfrData[1:8])\<close> starts with a constant of width zero: it is bits 1 to 7.\<close>

definition RESP_SWJ_Sequence_Process :: "inputs \<Rightarrow> state \<Rightarrow> state \<Rightarrow> state" where
  "RESP_SWJ_Sequence_Process i s n =
     (if txb s = 0 then
        (if streamOut_ready s then
           n\<lparr>tfrData := ucast (streamOut_payload i), txb := 1, busy := True\<rparr>
         else n\<lparr>busy := False\<rparr>)
      else if txb s = 1 then
        n\<lparr>dbgif_pinsin := bit_assign 0
              (Cat (0 :: 1 word) (bit_select (tfrData s) 0 :: 1 word) :: 2 word) (dbgif_pinsin n),
          tfrData := ucast (bit_select (tfrData s) 1 :: 7 word),
          dbgif_go := True, transferCount := transferCount s - 1, bitcount := bitcount s + 1,
          txb := 2\<rparr>
      else if txb s = 2 then
        (let n1 = (if \<not> dbg_done s then n\<lparr>dbgif_go := False\<rparr> else n)
         in if \<not> dbgif_go s \<and> dbg_done s then
              n1\<lparr>dbgif_pinsin := bit_assign 0 (1 :: 1 word) (dbgif_pinsin n1),
                 dbgif_go := True, txb := 3\<rparr>
            else n1)
      else if txb s = 3 then
        (let n1 = (if \<not> dbg_done s then n\<lparr>dbgif_go := False\<rparr> else n)
         in if \<not> dbgif_go s \<and> dbg_done s then
              (if transferCount s \<noteq> 0 then n1\<lparr>txb := (if bitcount s \<noteq> 0 then 1 else 0)\<rparr>
               else n1\<lparr>fsm := DAP_Wait_Done\<rparr>)
            else n1)
      else n)"

definition RESP_SWD_Configure :: "state \<Rightarrow> state \<Rightarrow> state" where
  "RESP_SWD_Configure s n =
     n\<lparr>dbgif_dwrite := ucast (bit_select (rxBlock s) 8 :: 8 word), dbgif_command := CMD_SET_CFG,
       dbgif_go := True, fsm := DAP_Wait_Done\<rparr>"

definition RESP_SWO_Transport :: "state \<Rightarrow> state \<Rightarrow> state" where
  "RESP_SWO_Transport s n0 =
     (let n1 = (if (word_select (rxBlock s) 1 :: 8 word) > 2
                then n0\<lparr>txBlock := word_assign 1 (0xFF :: 8 word) (txBlock n0)\<rparr> else n0)
      in n1\<lparr>fsm := RESPOND\<rparr>)"

definition RESP_SWO_Mode :: "state \<Rightarrow> state \<Rightarrow> state" where
  "RESP_SWO_Mode s n0 =
     (let n1 = (if (word_select (rxBlock s) 1 :: 8 word) > 2
                then n0\<lparr>txBlock := word_assign 1 (0xFF :: 8 word) (txBlock n0)\<rparr> else n0)
      in n1\<lparr>fsm := RESPOND\<rparr>)"

definition RESP_SWO_Baudrate :: "state \<Rightarrow> state \<Rightarrow> state" where
  "RESP_SWO_Baudrate s n = n\<lparr>txBlock := ucast (rxBlock s), txLen := 5, fsm := RESPOND\<rparr>"

definition RESP_SWO_Control :: "state \<Rightarrow> state \<Rightarrow> state" where
  "RESP_SWO_Control s n0 =
     (let n1 = (if (word_select (rxBlock s) 1 :: 8 word) > 1
                then n0\<lparr>txBlock := word_assign 1 (0xFF :: 8 word) (txBlock n0)\<rparr> else n0)
      in n1\<lparr>fsm := RESPOND\<rparr>)"

definition RESP_SWO_Status :: "state \<Rightarrow> state" where
  "RESP_SWO_Status n =
     n\<lparr>txBlock := bit_assign 8 (Cat (0 :: 8 word) (0x11223344 :: 32 word) :: 40 word) (txBlock n),
       txLen := 6, fsm := RESPOND\<rparr>"

definition RESP_SWO_ExtendedStatus :: "state \<Rightarrow> state \<Rightarrow> state" where
  "RESP_SWO_ExtendedStatus s n =
     (if (word_select (rxBlock s) 1 :: 8 word) AND 0xF8 \<noteq> 0 then RESP_Invalid n
      else n\<lparr>txBlock := bit_assign 8
                 (Cat (0 :: 8 word)
                    (Cat (0x11223344 :: 32 word)
                       (Cat (0x55667788 :: 32 word) (0x99AABBCC :: 32 word) :: 64 word) :: 96 word)
                  :: 104 word) (txBlock n),
              txLen := 14, fsm := RESPOND\<rparr>)"

definition RESP_SWO_Data_Setup :: "state \<Rightarrow> state \<Rightarrow> state" where
  "RESP_SWO_Data_Setup s n =
     (let maxSWObytes = (bit_select (rxBlock s) 8 :: 16 word) in
      n\<lparr>txLen := (if maxSWObytes < 100 then maxSWObytes else 100), txb := 0,
        fsm := DAP_SWO_Data_PROCESS\<rparr>)"

definition RESP_SWO_Data_Process :: "inputs \<Rightarrow> state \<Rightarrow> state \<Rightarrow> state" where
  "RESP_SWO_Data_Process i s n0 =
     (if streamIn_ready i then
        (let n1 = n0\<lparr>streamIn_last := False\<rparr>;
             n2 = (if txb s = 0 then n1\<lparr>streamIn_payload := DAP_SWO_Data, txb := 1\<rparr>
                   else if txb s = 1 then n1\<lparr>streamIn_payload := 0, txb := 2\<rparr>
                   else if txb s = 2 then
                     n1\<lparr>streamIn_payload := word_select (txLen s) 0, txb := 3\<rparr>
                   else if txb s = 3 then
                     (let n' = n1\<lparr>streamIn_payload := word_select (txLen s) 1,
                                  txb := (if txLen s \<noteq> 0 then 4 else 5)\<rparr>
                      in if txLen s = 0 then n'\<lparr>streamIn_last := True\<rparr> else n')
                   else if txb s = 4 then
                     (let n' = n1\<lparr>streamIn_payload := 42, txLen := txLen s - 1\<rparr>
                      in if txLen s = 1 then n'\<lparr>streamIn_last := True, txb := 5\<rparr> else n')
                   else if txb s = 5 then n1\<lparr>fsm := IDLE\<rparr>
                   else n1)
         in if txb s \<noteq> 5 then n2\<lparr>streamIn_valid := True\<rparr> else n2)
      else n0)"

definition RESP_JTAG_Configure :: "state \<Rightarrow> state \<Rightarrow> state" where
  "RESP_JTAG_Configure s n =
     n\<lparr>irlength := word_select (rxBlock s) 2, ndev := word_select (rxBlock s) 1, fsm := RESPOND\<rparr>"

definition RESP_JTAG_IDCODE :: "state \<Rightarrow> state" where
  "RESP_JTAG_IDCODE n =
     n\<lparr>txBlock := bit_assign 16 (0x44332211 :: 32 word) (txBlock n), txLen := 6, fsm := RESPOND\<rparr>"

definition RESP_TransferConfigure :: "state \<Rightarrow> state \<Rightarrow> state" where
  "RESP_TransferConfigure s n =
     n\<lparr>waitRetry := bit_select (rxBlock s) 16, matchRetry := bit_select (rxBlock s) 32,
       dbgif_dwrite := ucast (bit_select (rxBlock s) 8 :: 8 word),
       dbgif_command := CMD_SET_TFR_CFG, dbgif_go := True, fsm := DAP_Wait_Done\<rparr>"


subsection \<open>DAP\_Transfer\<close>

definition RESP_Transfer_Setup :: "state \<Rightarrow> state \<Rightarrow> state" where
  "RESP_Transfer_Setup s n0 =
     (let n = n0\<lparr>dapIndex := bit_select (rxBlock s) 8,
                 transferCount := ucast (bit_select (rxBlock s) 16 :: 8 word),
                 tfrram_adr := 0, busy := True, txb := 0\<rparr>
      in if (bit_select (rxBlock s) 16 :: 8 word) \<noteq> 0 then n\<lparr>fsm := DAP_Transfer_PROCESS\<rparr>
         else n\<lparr>txBlock := word_assign 2 (1 :: 8 word) (txBlock n), busy := False, txLen := 3,
                fsm := RESPOND\<rparr>)"

text \<open>
  State 7 of the transfer handler: the engine has completed an attempt and the core decides
  between a retry, the next element and the end of the command.
\<close>

definition Transfer_Interpret :: "inputs \<Rightarrow> state \<Rightarrow> state \<Rightarrow> state" where
  "Transfer_Interpret i s n0 =
     (let n = n0\<lparr>txBlock := word_assign 2
                   (Cat (dbgif_ack i) (of_bit (dbgif_perr i)) :: 8 word) (txBlock n0)\<rparr>
      in if dbgif_ack i = 2 then
           n\<lparr>retries := retries s + 1, txb := (if retries s < waitRetry s then 5 else 8)\<rparr>
         else if bit (tfrReq s) 4 then
           (if (dbgif_dread i AND mask_reg s) \<noteq> tfrData s \<and> matchretries s < matchRetry s then
              n\<lparr>txBlock := bit_assign 21 (1 :: 1 word) (txBlock n), txb := 8\<rparr>
            else n\<lparr>txb := 5\<rparr>)
         else
           (let n1 = (if dbgif_again i \<or> (\<not> dbgif_ignoreData i \<and> dbgif_rnw s)
                      then n\<lparr>tfrram_adr := tfrram_adr s + 1\<rparr> else n)
            in if dbgif_again i then n1\<lparr>txb := 5\<rparr>
               else
                 (let n2 = n1\<lparr>transferCount := transferCount s - 1\<rparr>
                  in if dbgif_ack i = 1 \<and> \<not> dbgif_perr i \<and> transferCount s > 1 then n2\<lparr>txb := 0\<rparr>
                     else if dbgif_postedMode i then n2\<lparr>tfrReq := 0x0E, retries := 0, txb := 5\<rparr>
                     else n2\<lparr>transferCount := ucast (tfrram_adr s) + ucast (of_bit (dbgif_rnw s)),
                             txb := 8\<rparr>)))"

definition RESP_Transfer_Process :: "inputs \<Rightarrow> state \<Rightarrow> state \<Rightarrow> state" where
  "RESP_Transfer_Process i s n0 =
     (let n = n0\<lparr>busy := True, streamIn_last := False\<rparr> in
      if txb s = 0 then
        (if \<not> streamOut_ready s then n\<lparr>busy := False\<rparr>
         else
           (let n1 = n\<lparr>tfrReq := streamOut_payload i, retries := 0,
                       txBlock := word_assign 1 ((word_select (txBlock s) 1 :: 8 word) + 1) (txBlock n)\<rparr>
            in if \<not> bit (streamOut_payload i) 1 \<or> bit (streamOut_payload i) 4
                  \<or> bit (streamOut_payload i) 5
               then n1\<lparr>txb := 1\<rparr>
               else n1\<lparr>txb := 5, busy := True\<rparr>))
      else if txb s \<in> {1, 2, 3, 4} then
        (if streamOut_ready s then
           (let n1 = n\<lparr>tfrData := word_assign (unat (txb s) - 1) (streamOut_payload i) (tfrData n),
                       txb := txb s + 1\<rparr>
            in if bit (tfrReq s) 5 \<and> txb s = 5 then
                 n1\<lparr>mask_reg := Cat (streamOut_payload i) (bit_select (tfrData s) 0 :: 24 word),
                    txb := 0\<rparr>
               else n1)
         else n\<lparr>busy := False\<rparr>)
      else if txb s = 5 then
        n\<lparr>dbgif_command := CMD_TRANSACT, dbgif_apndp := bit (tfrReq s) 0,
          dbgif_rnw := bit (tfrReq s) 1, dbgif_addr32 := bit_select (tfrReq s) 2,
          dbgif_dwrite := tfrData s, dbgif_go := True, txb := txb s + 1\<rparr>
      else if txb s = 6 then
        (if \<not> dbg_done s then n\<lparr>dbgif_go := False, txb := 7\<rparr> else n)
      else if txb s = 7 then
        (if dbg_done s then Transfer_Interpret i s n else n)
      else if txb s \<in> {8, 9, 10} then
        (let n1 = n\<lparr>tfrram_adr := 0\<rparr>
         in if streamIn_ready i then
              (let n2 = n1\<lparr>streamIn_payload := word_select (txBlock s) (unat (txb s) - 8),
                          streamIn_valid := True, txb := txb s + 1\<rparr>
               in if txb s = 10 \<and> transferCount s = 0 then
                    n2\<lparr>streamIn_last := True, busy := False, fsm := IDLE\<rparr>
                  else n2)
            else n1)
      else if txb s = 11 then
        n\<lparr>transferCount := transferCount s - 1, txb := txb s + 1\<rparr>
      else
        (if streamIn_ready i then
           (let n1 = n\<lparr>streamIn_payload := word_select (tfrram_dat_r s) (unat (txb s) - 12),
                       streamIn_valid := True, txb := txb s + 1\<rparr>
            in if txb s = 15 then
                 (if transferCount s = 0 then
                    n1\<lparr>streamIn_last := True, busy := False, fsm := IDLE\<rparr>
                  else n1\<lparr>tfrram_adr := tfrram_adr s + 1, txb := 11\<rparr>)
               else n1)
         else n))"

subsection \<open>DAP\_TransferBlock\<close>

text \<open>
  The setup selects its first state with \<^verbatim>\<open>self.tfrReq.bit_select(33,1)\<close>, a bit the
  eight-bit request register does not have: it reads as 0.
\<close>

definition RESP_TransferBlock_Setup :: "state \<Rightarrow> state \<Rightarrow> state" where
  "RESP_TransferBlock_Setup s n0 =
     (let n = n0\<lparr>tfrram_adr := 0, dbgif_command := CMD_TRANSACT, retries := 0,
                 dapIndex := bit_select (rxBlock s) 8,
                 transferCount := bit_select (rxBlock s) 16,
                 dbgif_apndp := bit (rxBlock s) 32, dbgif_rnw := bit (rxBlock s) 33,
                 dbgif_addr32 := bit_select (rxBlock s) 34,
                 txBlock := bit_assign 8 (0 :: 16 word) (txBlock n0),
                 txb := (if bit (tfrReq s) 33 then 4 else 0)\<rparr>
      in if (bit_select (rxBlock s) 16 :: 16 word) \<noteq> 0 then n\<lparr>fsm := DAP_TransferBlock_PROCESS\<rparr>
         else n\<lparr>txBlock := bit_assign 8 (1 :: 24 word) (txBlock n), txLen := 4, fsm := RESPOND\<rparr>)"

definition RESP_TransferBlock_Process :: "inputs \<Rightarrow> state \<Rightarrow> state \<Rightarrow> state" where
  "RESP_TransferBlock_Process i s n0 =
     (let n = n0\<lparr>busy := True, streamIn_last := False\<rparr> in
      if txb s \<in> {0, 1, 2, 3} then
        (if streamOut_ready s then
           n\<lparr>tfrData := word_assign (unat (txb s)) (streamOut_payload i) (tfrData n),
             txb := txb s + 1\<rparr>
         else n\<lparr>busy := False\<rparr>)
      else if txb s = 4 then
        n\<lparr>txBlock := bit_assign 8 ((bit_select (txBlock s) 8 :: 16 word) + 1) (txBlock n),
          dbgif_dwrite := tfrData s, dbgif_go := True, retries := retries s + 1, txb := 5\<rparr>
      else if txb s = 5 then
        (if \<not> dbg_done s then n\<lparr>dbgif_go := False, txb := 6\<rparr> else n)
      else if txb s = 6 then
        (if dbg_done s then
           (let n1 = n\<lparr>txBlock := bit_assign 24
                         (Cat (dbgif_ack i) (of_bit (dbgif_perr i)) :: 8 word) (txBlock n)\<rparr>
            in if dbgif_ack i = 2 then n1\<lparr>txb := (if retries s < waitRetry s then 4 else 7)\<rparr>
               else
                 (let n2 = (if \<not> dbgif_ignoreData i \<and> dbgif_rnw s
                            then n1\<lparr>tfrram_adr := tfrram_adr s + 1\<rparr> else n1)
                  in if dbgif_again i then n2\<lparr>retries := 0, dbgif_go := True, txb := 5\<rparr>
                     else
                       (let n3 = n2\<lparr>transferCount := transferCount s - 1\<rparr>
                        in if dbgif_ack i = 1 \<and> \<not> dbgif_perr i \<and> transferCount s > 1 then
                             n3\<lparr>txb := (if dbgif_rnw s then 4 else 0)\<rparr>
                           else if dbgif_postedMode i then
                             n3\<lparr>txBlock := bit_assign 8 ((bit_select (txBlock s) 8 :: 16 word) - 1)
                                              (txBlock n3),
                                dbgif_rnw := True, retries := 0, dbgif_apndp := False,
                                dbgif_addr32 := 3, txb := 4\<rparr>
                           else
                             n3\<lparr>transferCount := ucast (tfrram_adr s) + ucast (of_bit (dbgif_rnw s)),
                                tfrram_adr := 0, txb := 7\<rparr>)))
         else n)
      else if txb s \<in> {7, 8, 9, 10} then
        (let n1 = (if streamIn_ready i then
                     n\<lparr>streamIn_payload := word_select (txBlock s) (unat (txb s) - 7),
                       streamIn_valid := True, txb := txb s + 1\<rparr>
                   else n)
         in if txb s = 10 \<and> \<not> dbgif_rnw s then n1\<lparr>streamIn_last := True, fsm := IDLE\<rparr> else n1)
      else if txb s = 11 then
        n\<lparr>transferCount := transferCount s - 1, txb := 12\<rparr>
      else
        (if streamIn_ready i then
           (let n1 = n\<lparr>streamIn_payload := word_select (tfrram_dat_r s) (unat (txb s) - 12),
                       streamIn_valid := True, txb := txb s + 1\<rparr>
            in if txb s = 15 then
                 (if transferCount s = 0 then n1\<lparr>streamIn_last := True, fsm := IDLE\<rparr>
                  else n1\<lparr>txb := 11, tfrram_adr := tfrram_adr s + 1\<rparr>)
               else n1)
         else n))"

subsection \<open>DAP\_JTAG\_Sequence\<close>

text \<open>\<^verbatim>\<open>self.txBlock[16:].eq(0)\<close> clears the 96 bits above the two-byte header.\<close>

definition RESP_JTAG_Sequence_Setup :: "state \<Rightarrow> state \<Rightarrow> state" where
  "RESP_JTAG_Sequence_Setup s n =
     n\<lparr>seqCount := word_select (rxBlock s) 1, tdoCount := 16,
       txBlock := bit_assign 16 (0 :: 96 word) (txBlock n), txb := 0,
       fsm := DAP_JTAG_Sequence_PROCESS\<rparr>"

definition RESP_JTAG_Sequence_PROCESS :: "inputs \<Rightarrow> state \<Rightarrow> state \<Rightarrow> state" where
  "RESP_JTAG_Sequence_PROCESS i s n0 =
     (let n = n0\<lparr>busy := True\<rparr> in
      if seqCount s = 0 then
        n\<lparr>txLen := of_nat ((unat (tdoCount s) + 7) div 8), busy := False, fsm := RESPOND\<rparr>
      else if txb s = 0 then
        (let n1 = n\<lparr>busy := False\<rparr>;
             n2 = (if streamOut_ready s then
                     n1\<lparr>tckCycles := bit_select (streamOut_payload i) 0,
                        tmsValue := bit (streamOut_payload i) 6,
                        tdoCapture := bit (streamOut_payload i) 7, txb := 1\<rparr>
                   else n1)
         in n2\<lparr>tdoCount := of_nat (unat (tdoCount s) + 7) AND 0x78\<rparr>)
      else if txb s = 1 then
        (let n1 = n\<lparr>busy := False\<rparr>
         in if streamOut_ready s then
              n1\<lparr>tdiData := streamOut_payload i, txb := 2, busy := True,
                 bytebits := (if tckCycles s = 0 \<or> tckCycles s > 7 then 8
                              else ucast (tckCycles s))\<rparr>
            else n1)
      else if txb s = 2 then
        (let n1 = n\<lparr>tckCycles := tckCycles s - 1, bytebits := bytebits s - 1\<rparr>;
             n2 = (if bytebits s = 1 then n1\<lparr>txb := 1\<rparr> else n1);
             n3 = (if tdoCapture s then
                     n2\<lparr>tdoCount := tdoCount s + 1,
                        txBlock := bit_assign (unat (tdoCount s)) (of_bit (bytebits s = 1)) (txBlock n2)\<rparr>
                   else n2);
             n4 = n3\<lparr>tdiData := drop_bit 1 (tdiData s)\<rparr>
         in if tckCycles s = 1 then n4\<lparr>seqCount := seqCount s - 1, txb := 0\<rparr> else n4)
      else n)"


subsection \<open>The decoder FSM\<close>

text \<open>
  \<open>IDLE\<close>: the first byte of a packet is the opcode. It selects the length of the frame to
  collect; the default next state is \<open>ProtocolError\<close>, which stands for an opcode that needs
  more bytes arriving with \<open>last\<close> set.
\<close>

definition state_IDLE :: "inputs \<Rightarrow> state \<Rightarrow> state \<Rightarrow> state" where
  "state_IDLE i s n0 =
     (let n1 = n0\<lparr>txedLen := 0, busy := False\<rparr>; op = streamOut_payload i in
      if streamOut_valid i \<and> streamOut_first i then
        (let n = n1\<lparr>fsm := ProtocolError, rxedLen := 1,
                    rxBlock := word_assign 0 op (rxBlock n1),
                    txBlock := word_assign 0 (Cat op (0 :: 8 word) :: 16 word) (txBlock n1),
                    txLen := 2\<rparr>
         in if op \<in> {DAP_Disconnect, DAP_ResetTarget, DAP_SWO_Status, DAP_TransferAbort} then
              n\<lparr>rxLen := 1, fsm := RxParams\<rparr>
            else if op \<in> {DAP_Info, DAP_Connect, DAP_SWD_Configure, DAP_SWO_Transport,
                           DAP_SWJ_Sequence, DAP_SWO_Mode, DAP_SWO_Control,
                           DAP_SWO_ExtendedStatus, DAP_JTAG_IDCODE, DAP_JTAG_Sequence} then
              (let n' = n\<lparr>rxLen := 2\<rparr>
               in if \<not> streamOut_last i then n'\<lparr>fsm := RxParams\<rparr> else n')
            else if op \<in> {DAP_HostStatus, DAP_SWO_Data, DAP_Delay, DAP_JTAG_Configure,
                           DAP_Transfer} then
              (let n' = n\<lparr>rxLen := 3\<rparr>
               in if \<not> streamOut_last i then n'\<lparr>fsm := RxParams\<rparr> else n')
            else if op \<in> {DAP_SWO_Baudrate, DAP_SWJ_Clock, DAP_TransferBlock} then
              (let n' = n\<lparr>rxLen := 5\<rparr>
               in if \<not> streamOut_last i then n'\<lparr>fsm := RxParams\<rparr> else n')
            else if op \<in> {DAP_WriteABORT, DAP_TransferConfigure} then
              (let n' = n\<lparr>rxLen := 6\<rparr>
               in if \<not> streamOut_last i then n'\<lparr>fsm := RxParams\<rparr> else n')
            else if op = DAP_SWJ_Pins then
              (let n' = n\<lparr>rxLen := 7\<rparr>
               in if \<not> streamOut_last i then n'\<lparr>fsm := RxParams\<rparr> else n')
            else if op = DAP_SWD_Sequence then
              (if \<not> streamOut_last i then n\<lparr>fsm := DAP_SWD_Sequence_GetCount\<rparr> else n)
            else if op = DAP_ExecuteCommands then
              (if \<not> streamOut_last i then n\<lparr>fsm := DAP_ExecuteCommands_GetNum\<rparr> else n)
            else if op = DAP_QueueCommands then
              (if \<not> streamOut_last i then n\<lparr>fsm := DAP_QueueCommands_GetNum\<rparr> else n)
            else RESP_Invalid n)
      else n1)"

text \<open>\<open>RESPOND\<close>: the response streamer drains \<open>txBlock\<close> up to \<open>txLen\<close> bytes.\<close>

definition state_RESPOND :: "inputs \<Rightarrow> state \<Rightarrow> state \<Rightarrow> state" where
  "state_RESPOND i s n =
     (if txedLen s < txLen s then
        (if streamIn_ready i then
           n\<lparr>streamIn_payload := word_select (txBlock s) (unat (txedLen s)),
             txedLen := txedLen s + 1,
             streamIn_last := (unat (txedLen s) + 1 = unat (txLen s)),
             streamIn_valid := True\<rparr>
         else n)
      else
        n\<lparr>streamIn_valid := False, streamIn_last := False, rxedLen := 0, busy := False,
          fsm := IDLE\<rparr>)"

text \<open>The action dispatcher of \<open>RxParams\<close>: one handler for the opcode of the frame.\<close>

definition dispatch :: "inputs \<Rightarrow> state \<Rightarrow> state \<Rightarrow> state" where
  "dispatch i s n =
     (let op = (word_select (rxBlock s) 0 :: 8 word) in
      if op = DAP_Info then RESP_Info i s n
      else if op = DAP_HostStatus then RESP_HostStatus s n
      else if op = DAP_Connect then RESP_Connect_Setup s n
      else if op = DAP_Disconnect then RESP_Disconnect n
      else if op = DAP_WriteABORT then RESP_WriteABORT s n
      else if op = DAP_Delay then RESP_Delay s n
      else if op = DAP_ResetTarget then RESP_ResetTarget n
      else if op = DAP_SWJ_Pins then RESP_SWJ_Pins_Setup s n
      else if op = DAP_SWJ_Clock then RESP_SWJ_Clock s n
      else if op = DAP_SWJ_Sequence then RESP_SWJ_Sequence_Setup s n
      else if op = DAP_SWD_Configure then RESP_SWD_Configure s n
      else if op = DAP_SWO_Transport then RESP_SWO_Transport s n
      else if op = DAP_SWO_Mode then RESP_SWO_Mode s n
      else if op = DAP_SWO_Baudrate then RESP_SWO_Baudrate s n
      else if op = DAP_SWO_Control then RESP_SWO_Control s n
      else if op = DAP_SWO_Status then RESP_SWO_Status n
      else if op = DAP_SWO_ExtendedStatus then RESP_SWO_ExtendedStatus s n
      else if op = DAP_SWO_Data then RESP_SWO_Data_Setup s n
      else if op = DAP_JTAG_Sequence then RESP_JTAG_Sequence_Setup s n
      else if op = DAP_JTAG_Configure then RESP_JTAG_Configure s n
      else if op = DAP_JTAG_IDCODE then RESP_JTAG_IDCODE n
      else if op = DAP_TransferConfigure then RESP_TransferConfigure s n
      else if op = DAP_Transfer then RESP_Transfer_Setup s n
      else if op = DAP_TransferBlock then RESP_TransferBlock_Setup s n
      else RESP_Invalid n)"

definition state_RxParams :: "inputs \<Rightarrow> state \<Rightarrow> state \<Rightarrow> state" where
  "state_RxParams i s n0 =
     (if rxedLen s = rxLen s then dispatch i s n0
      else if streamOut_valid i then
        (let n1 = n0\<lparr>rxBlock := word_assign (unat (rxedLen s)) (streamOut_payload i) (rxBlock n0),
                     rxedLen := rxedLen s + 1\<rparr>;
             n2 = (if unat (rxedLen s) + 1 = unat (rxLen s) then n1\<lparr>busy := True\<rparr> else n1)
         in if streamOut_last i then
              (if unat (rxedLen s) + 1 \<noteq> unat (rxLen s) then RESP_Invalid n2 else n2)
            else n2)
      else n0)"

text \<open>
  The assignments outside the FSM: \<open>streamIn_valid\<close> falls back to 0, \<open>done_cdc\<close> shifts in
  the engine's \<open>done\<close>, and the RAM takes the engine's read data at its address register on
  the rising edge of \<open>done\<close> (\<open>dat_w\<close> is driven only in the two transfer states); its read
  port is registered and transparent. The memory has 500 words.
\<close>

definition tfrram_dat_w :: "inputs \<Rightarrow> state \<Rightarrow> 32 word" where
  "tfrram_dat_w i s =
     (if fsm s = DAP_Transfer_PROCESS \<or> fsm s = DAP_TransferBlock_PROCESS then dbgif_dread i else 0)"

definition clock_common :: "inputs \<Rightarrow> state \<Rightarrow> state" where
  "clock_common i s =
     (let mem' = (if tfrram_we s \<and> unat (tfrram_adr s) < 500
                  then (tfrram_mem s)(tfrram_adr s := tfrram_dat_w i s) else tfrram_mem s)
      in s\<lparr>streamIn_valid := False,
           done_cdc := Cat (bit_select (done_cdc s) 1 :: 1 word) (of_bit (dbgif_done i)),
           tfrram_mem := mem',
           tfrram_dat_r := (if unat (tfrram_adr s) < 500 then mem' (tfrram_adr s) else 0)\<rparr>)"

definition step :: "inputs \<Rightarrow> state \<Rightarrow> state" where
  "step i s =
     (let n = clock_common i s in
      case fsm s of
        IDLE \<Rightarrow> state_IDLE i s n
      | RESPOND \<Rightarrow> state_RESPOND i s n
      | RxParams \<Rightarrow> state_RxParams i s n
      | DAP_SWJ_Pins_PROCESS \<Rightarrow> RESP_SWJ_Pins_Process i s n
      | DAP_SWO_Data_PROCESS \<Rightarrow> RESP_SWO_Data_Process i s n
      | DAP_SWJ_Sequence_PROCESS \<Rightarrow> RESP_SWJ_Sequence_Process i s n
      | DAP_JTAG_Sequence_PROCESS \<Rightarrow> RESP_JTAG_Sequence_PROCESS i s n
      | DAP_Transfer_PROCESS \<Rightarrow> RESP_Transfer_Process i s n
      | DAP_TransferBlock_PROCESS \<Rightarrow> RESP_TransferBlock_Process i s n
      | DAP_SWD_Sequence_GetCount \<Rightarrow> RESP_Invalid n
      | DAP_TransferBlock_State \<Rightarrow> RESP_Invalid n
      | DAP_ExecuteCommands_GetNum \<Rightarrow> RESP_Invalid n
      | DAP_QueueCommands_GetNum \<Rightarrow> RESP_Invalid n
      | DAP_Wait_Done \<Rightarrow> RESP_Wait_Done i s n
      | DAP_Wait_Connect_Done \<Rightarrow> RESP_Wait_Connect_Done s n
      | Error_State \<Rightarrow> RESP_Invalid n
      | ProtocolError \<Rightarrow> RESP_Invalid n)"

section \<open>Runs\<close>

text \<open>
  \<open>run\<close> clocks the core through a list of inputs; \<open>trace\<close> keeps every state on the way.
  A state with \<open>streamIn_valid\<close> presents one byte of the response, and \<open>emitted\<close> collects
  these bytes with their \<open>last\<close> flags.
\<close>

fun run :: "inputs list \<Rightarrow> state \<Rightarrow> state" where
  "run [] s = s"
| "run (i # is) s = run is (step i s)"

fun trace :: "inputs list \<Rightarrow> state \<Rightarrow> state list" where
  "trace [] s = []"
| "trace (i # is) s = step i s # trace is (step i s)"

definition emitted :: "state list \<Rightarrow> (8 word \<times> bool) list" where
  "emitted ss = map (\<lambda>t. (streamIn_payload t, streamIn_last t)) (filter streamIn_valid ss)"

text \<open>All registers reset to 0, the FSM to its first state.\<close>

definition reset_state :: state where
  "reset_state =
     \<lparr>fsm = IDLE, running = False, connected = False, rxBlock = 0, rxLen = 0, rxedLen = 0,
      txBlock = 0, txLen = 0, txedLen = 0, busy = False, txb = 0, bitcount = 0,
      tmsValue = False, tdoCapture = False, tdiData = 0, tdoCount = 0, seqCount = 0,
      tckCycles = 0, bytebits = 0, dapIndex = 0, transferCount = 0, mask_reg = 0, retries = 0,
      matchretries = 0, tfrReq = 0, tfrData = 0, ndev = 0, irlength = 0, waitRetry = 0,
      matchRetry = 0, done_cdc = 0, tfrram_adr = 0, tfrram_mem = (\<lambda>a. if a = 0 then 0xDEADBEEF else 0),
      tfrram_dat_r = 0, dbgif_command = 0, dbgif_apndp = False, dbgif_rnw = False,
      dbgif_addr32 = 0, dbgif_dwrite = 0, dbgif_go = False, dbgif_countdown = 0,
      dbgif_pinsin = 0, streamIn_payload = 0, streamIn_valid = False, streamIn_last = False\<rparr>"


section \<open>Stimuli\<close>

text \<open>
  A byte from the host in one cycle, on top of whatever the rest of the environment (the
  engine, the consumer, the transport flag) does in that cycle; a packet fed byte by byte,
  \<open>first\<close> on its first byte and \<open>last\<close> on its final one; a cycle in which the consumer
  of the response stream is ready.
\<close>

definition host_byte :: "8 word \<Rightarrow> bool \<Rightarrow> bool \<Rightarrow> inputs \<Rightarrow> inputs" where
  "host_byte b f l e =
     e\<lparr>streamOut_valid := True, streamOut_first := f, streamOut_last := l, streamOut_payload := b\<rparr>"

fun feed :: "bool \<Rightarrow> (8 word \<times> inputs) list \<Rightarrow> inputs list" where
  "feed f [] = []"
| "feed f ((b, e) # xs) = host_byte b f (xs = []) e # feed False xs"

definition consumer_ready :: "inputs \<Rightarrow> inputs" where
  "consumer_ready e = e\<lparr>streamIn_ready := True\<rparr>"

definition disconnect_cycles :: "(nat \<Rightarrow> inputs) \<Rightarrow> inputs list" where
  "disconnect_cycles e =
     feed True [(DAP_Disconnect, e 0)] @ [e 1, consumer_ready (e 2), consumer_ready (e 3), e 4]"

definition info_cycles :: "8 word \<Rightarrow> (nat \<Rightarrow> inputs) \<Rightarrow> inputs list" where
  "info_cycles ident e =
     feed True [(DAP_Info, e 0), (ident, e 1)] @ [e 2, consumer_ready (e 3), consumer_ready (e 4), consumer_ready (e 5), consumer_ready (e 6),
        consumer_ready (e 7), consumer_ready (e 8), e 9]"

definition jtag_sequence_cycles :: "8 word \<Rightarrow> (nat \<Rightarrow> inputs) \<Rightarrow> inputs list" where
  "jtag_sequence_cycles count e =
     feed True [(DAP_JTAG_Sequence, e 0), (count, e 1)] @ [e 2, e 3, consumer_ready (e 4), consumer_ready (e 5), e 6]"

definition transfer_cycles :: "8 word \<Rightarrow> 8 word \<Rightarrow> (nat \<Rightarrow> inputs) \<Rightarrow> inputs list" where
  "transfer_cycles index count e =
     feed True [(DAP_Transfer, e 0), (index, e 1), (count, e 2)] @ [e 3, consumer_ready (e 4), consumer_ready (e 5), consumer_ready (e 6), e 7]"

definition transferblock_cycles :: "8 word \<Rightarrow> 8 word \<Rightarrow> 8 word \<Rightarrow> 8 word \<Rightarrow> (nat \<Rightarrow> inputs) \<Rightarrow> inputs list" where
  "transferblock_cycles index count_lo count_hi req e =
     feed True [(DAP_TransferBlock, e 0), (index, e 1), (count_lo, e 2), (count_hi, e 3), (req, e 4)] @ [e 5, consumer_ready (e 6), consumer_ready (e 7), consumer_ready (e 8), consumer_ready (e 9), e 10]"


text \<open>An environment in which nothing happens, for concrete runs.\<close>

definition idle_inputs :: inputs where
  "idle_inputs =
     \<lparr>streamOut_valid = False, streamOut_first = False, streamOut_last = False,
      streamOut_payload = 0, streamIn_ready = False, isV2 = False, dbgif_done = True,
      dbgif_ack = 1, dbgif_perr = False, dbgif_dread = 0, dbgif_again = False,
      dbgif_ignoreData = False, dbgif_postedMode = False\<rparr>"

text \<open>
  The engine as the handshake of the core expects it: \<open>done\<close> is high while it is idle,
  falls once it has accepted a command and rises again when the command is complete, with
  the answer (\<open>ack\<close>, read data) on its outputs. \<open>attempt\<close> is one such round trip, seen
  from the cycle in which the core raises \<open>go\<close>: \<open>done\<close> high, low for two cycles, then high;
  the synchroniser of the core reports completion in the last cycle.
\<close>

definition engine_answer :: "3 word \<Rightarrow> 32 word \<Rightarrow> inputs" where
  "engine_answer a d = idle_inputs\<lparr>dbgif_ack := a, dbgif_dread := d\<rparr>"

definition engine_working :: "3 word \<Rightarrow> 32 word \<Rightarrow> inputs" where
  "engine_working a d = (engine_answer a d)\<lparr>dbgif_done := False\<rparr>"

definition attempt :: "3 word \<Rightarrow> 32 word \<Rightarrow> inputs list" where
  "attempt a d =
     [engine_answer a d, engine_working a d, engine_working a d,
      engine_answer a d, engine_answer a d, engine_answer a d]"

text \<open>An engine that never completes anything, with 0x5A on its read data.\<close>

definition engine_silent :: inputs where
  "engine_silent = idle_inputs\<lparr>dbgif_done := False, dbgif_dread := 0x5A\<rparr>"

text \<open>The host holding a byte on the stream for \<open>n\<close> cycles.\<close>

definition held :: "nat \<Rightarrow> 8 word \<Rightarrow> bool \<Rightarrow> inputs list" where
  "held n b l = replicate n (host_byte b False l idle_inputs)"

text \<open>
  A DAP\_SWJ\_Pins frame (seven bytes), the dispatch cycle, the cycle of the pin handler, two
  cycles in which the consumer takes a byte, and the return to idle.
\<close>

definition swj_pins_cycles :: "8 word \<Rightarrow> 8 word \<Rightarrow> (nat \<Rightarrow> inputs) \<Rightarrow> inputs list" where
  "swj_pins_cycles pin_output pin_select e =
     feed True [(DAP_SWJ_Pins, e 0), (pin_output, e 1), (pin_select, e 2), (0, e 3), (0, e 4),
                (0, e 5), (0, e 6)]
       @ [e 7, e 8, consumer_ready (e 9), consumer_ready (e 10), e 11]"

text \<open>
  A DAP\_Transfer packet with one element, the value-match read 0x12 (read, address 0, bit 4
  set) of the 32-bit value \<open>expected\<close> (its low byte; the others are 0). The core takes the
  three bytes of the frame in three cycles, then the request byte after its dispatch cycle and
  one idle cycle, and each data byte in the second of two cycles.
\<close>

definition transfer_match_cycles :: "8 word \<Rightarrow> inputs list" where
  "transfer_match_cycles expected =
     [host_byte DAP_Transfer True False idle_inputs] @ held 1 0 False @ held 1 1 False
       @ held 3 0x12 False @ held 2 expected False @ held 2 0 False @ held 2 0 False @ held 2 0 True"

text \<open>
  A DAP\_TransferConfigure command (idle cycles 0, the low bytes of WaitRetry and MatchRetry
  given) with the round trip of the engine and the two bytes of its response.
\<close>

definition transfer_configure_cycles :: "8 word \<Rightarrow> 8 word \<Rightarrow> inputs list" where
  "transfer_configure_cycles wait_retry match_retry =
     feed True [(DAP_TransferConfigure, idle_inputs), (0, idle_inputs), (wait_retry, idle_inputs),
                (0, idle_inputs), (match_retry, idle_inputs), (0, idle_inputs)]
       @ [idle_inputs] @ attempt 1 0
       @ [consumer_ready idle_inputs, consumer_ready idle_inputs, idle_inputs]"

text \<open>The states the core can be in: the reset state and every state one clock later.\<close>

inductive_set reachable :: "state set" where
  reset: "reset_state \<in> reachable"
| clock: "s \<in> reachable \<Longrightarrow> step i s \<in> reachable"

text \<open>
  The cursor of the response streamer is at most the declared length, and it is 0 outside the
  streamer and the idle state.
\<close>

definition cursor_inv :: "state \<Rightarrow> bool" where
  "cursor_inv s \<longleftrightarrow> txedLen s \<le> txLen s \<and> (fsm s \<noteq> RESPOND \<and> fsm s \<noteq> IDLE \<longrightarrow> txedLen s = 0)"

text \<open>
  The frame length the idle state declares for an opcode, that is what it assigns to \<open>rxLen\<close>;
  0 for the opcodes it declares none for: those it does not know, and DAP\_SWD\_Sequence,
  DAP\_ExecuteCommands and DAP\_QueueCommands, which it sends on to states that answer Invalid.
\<close>

definition declared_length :: "8 word \<Rightarrow> nat" where
  "declared_length op =
     (if op \<in> {DAP_Disconnect, DAP_ResetTarget, DAP_SWO_Status, DAP_TransferAbort} then 1
      else if op \<in> {DAP_Info, DAP_Connect, DAP_SWD_Configure, DAP_SWO_Transport,
                     DAP_SWJ_Sequence, DAP_SWO_Mode, DAP_SWO_Control,
                     DAP_SWO_ExtendedStatus, DAP_JTAG_IDCODE, DAP_JTAG_Sequence} then 2
      else if op \<in> {DAP_HostStatus, DAP_SWO_Data, DAP_Delay, DAP_JTAG_Configure,
                     DAP_Transfer} then 3
      else if op \<in> {DAP_SWO_Baudrate, DAP_SWJ_Clock, DAP_TransferBlock} then 5
      else if op \<in> {DAP_WriteABORT, DAP_TransferConfigure} then 6
      else if op = DAP_SWJ_Pins then 7
      else 0)"

text \<open>
  After a packet the host is silent; \<open>drain\<close> is three such cycles in which the consumer of
  the response stream is ready.
\<close>

definition no_packet :: "inputs \<Rightarrow> inputs" where
  "no_packet e = e\<lparr>streamOut_valid := False\<rparr>"

definition drain :: "(nat \<Rightarrow> inputs) \<Rightarrow> inputs list" where
  "drain e = [consumer_ready (no_packet (e 0)), consumer_ready (no_packet (e 1)),
              consumer_ready (no_packet (e 2))]"

text \<open>
  A run answers Invalid: it presents the single byte 0xFF, marked \<open>last\<close>, the \<open>go\<close>
  register keeps the value it had in every cycle, and the run ends in the idle state, not busy.
\<close>

definition answers_invalid :: "state \<Rightarrow> inputs list \<Rightarrow> bool" where
  "answers_invalid s ins \<longleftrightarrow>
     emitted (trace ins s) = [(DAP_Invalid, True)]
     \<and> map dbgif_go (trace ins s) = replicate (length ins) (dbgif_go s)
     \<and> fsm (run ins s) = IDLE \<and> \<not> busy (run ins s)"

text \<open>
  The stations of a rejected packet: the Invalid response staged in the streamer, a state that
  stages it in its next cycle, and the collection of the frame with \<open>k\<close> of \<open>L\<close> bytes taken.
\<close>

definition invalid_pending :: "bool \<Rightarrow> state \<Rightarrow> bool" where
  "invalid_pending g s \<longleftrightarrow>
     fsm s = RESPOND \<and> txLen s = 1 \<and> txedLen s = 0 \<and> (word_select (txBlock s) 0 :: 8 word) = 0xFF
     \<and> dbgif_go s = g \<and> \<not> streamIn_valid s"

definition invalid_next :: "bool \<Rightarrow> state \<Rightarrow> bool" where
  "invalid_next g s \<longleftrightarrow>
     fsm s \<in> {ProtocolError, DAP_SWD_Sequence_GetCount, DAP_ExecuteCommands_GetNum,
               DAP_QueueCommands_GetNum}
     \<and> txedLen s = 0 \<and> dbgif_go s = g \<and> \<not> streamIn_valid s"

definition rx_collecting :: "bool \<Rightarrow> nat \<Rightarrow> nat \<Rightarrow> state \<Rightarrow> bool" where
  "rx_collecting g L k s \<longleftrightarrow>
     fsm s = RxParams \<and> unat (rxLen s) = L \<and> unat (rxedLen s) = k \<and> txedLen s = 0
     \<and> dbgif_go s = g \<and> \<not> streamIn_valid s"

section \<open>Slices of assigned signals\<close>

lemma bit_bit_select:
  "bit (bit_select v off :: 'b::len word) n \<longleftrightarrow> n < LENGTH('b) \<and> bit (v::'a::len word) (off + n)"
  by (auto simp add: bit_select_def bit_simps)

lemma bit_bit_assign:
  "bit (bit_assign off (x::'b::len word) (v::'a::len word)) n \<longleftrightarrow>
     (if off \<le> n \<and> n < off + LENGTH('b) then n < LENGTH('a) \<and> bit x (n - off) else bit v n)"
  by (auto simp add: bit_assign_def bit_simps dest: bit_imp_le_length)

lemma bit_select_assign_other [simp]:
  "off' + LENGTH('c) \<le> off \<or> off + LENGTH('b) \<le> off' \<Longrightarrow>
     (bit_select (bit_assign off (x::'b::len word) (v::'a::len word)) off' :: 'c::len word)
       = bit_select v off'"
  by (rule bit_word_eqI) (auto simp add: bit_bit_select bit_bit_assign)

lemma bit_select_assign_inside [simp]:
  "off \<le> off' \<and> off' + LENGTH('c) \<le> off + LENGTH('b) \<and> off + LENGTH('b) \<le> LENGTH('a) \<Longrightarrow>
     (bit_select (bit_assign off (x::'b::len word) (v::'a::len word)) off' :: 'c::len word)
       = bit_select x (off' - off)"
  by (rule bit_word_eqI) (auto simp add: bit_bit_select bit_bit_assign)

lemma bit_select_numeral [simp]:
  "(bit_select (numeral k :: 'a::len word) off :: 'b::len word) = ucast (drop_bit off (numeral k :: 'a word))"
  "(bit_select (0 :: 'a::len word) off :: 'b::len word) = 0"
  "(bit_select (1 :: 'a::len word) off :: 'b::len word) = ucast (drop_bit off (1 :: 'a word))"
  by (simp_all add: bit_select_def)

lemma clock_common_fields [simp]:
  "fsm (clock_common i s) = fsm s"
  "running (clock_common i s) = running s"
  "connected (clock_common i s) = connected s"
  "rxBlock (clock_common i s) = rxBlock s"
  "rxLen (clock_common i s) = rxLen s"
  "rxedLen (clock_common i s) = rxedLen s"
  "txBlock (clock_common i s) = txBlock s"
  "txLen (clock_common i s) = txLen s"
  "txedLen (clock_common i s) = txedLen s"
  "busy (clock_common i s) = busy s"
  "txb (clock_common i s) = txb s"
  "bitcount (clock_common i s) = bitcount s"
  "tmsValue (clock_common i s) = tmsValue s"
  "tdoCapture (clock_common i s) = tdoCapture s"
  "tdiData (clock_common i s) = tdiData s"
  "tdoCount (clock_common i s) = tdoCount s"
  "seqCount (clock_common i s) = seqCount s"
  "tckCycles (clock_common i s) = tckCycles s"
  "bytebits (clock_common i s) = bytebits s"
  "dapIndex (clock_common i s) = dapIndex s"
  "transferCount (clock_common i s) = transferCount s"
  "mask_reg (clock_common i s) = mask_reg s"
  "retries (clock_common i s) = retries s"
  "matchretries (clock_common i s) = matchretries s"
  "tfrReq (clock_common i s) = tfrReq s"
  "tfrData (clock_common i s) = tfrData s"
  "ndev (clock_common i s) = ndev s"
  "irlength (clock_common i s) = irlength s"
  "waitRetry (clock_common i s) = waitRetry s"
  "matchRetry (clock_common i s) = matchRetry s"
  "tfrram_adr (clock_common i s) = tfrram_adr s"
  "dbgif_command (clock_common i s) = dbgif_command s"
  "dbgif_apndp (clock_common i s) = dbgif_apndp s"
  "dbgif_rnw (clock_common i s) = dbgif_rnw s"
  "dbgif_addr32 (clock_common i s) = dbgif_addr32 s"
  "dbgif_dwrite (clock_common i s) = dbgif_dwrite s"
  "dbgif_go (clock_common i s) = dbgif_go s"
  "dbgif_countdown (clock_common i s) = dbgif_countdown s"
  "dbgif_pinsin (clock_common i s) = dbgif_pinsin s"
  "streamIn_payload (clock_common i s) = streamIn_payload s"
  "streamIn_last (clock_common i s) = streamIn_last s"
  "streamIn_valid (clock_common i s) = False"
  by (simp_all add: clock_common_def Let_def)

lemma step_simps:
  "fsm s = IDLE \<Longrightarrow> step i s = state_IDLE i s (clock_common i s)"
  "fsm s = RESPOND \<Longrightarrow> step i s = state_RESPOND i s (clock_common i s)"
  "fsm s = RxParams \<Longrightarrow> step i s = state_RxParams i s (clock_common i s)"
  "fsm s = DAP_SWJ_Pins_PROCESS \<Longrightarrow> step i s = RESP_SWJ_Pins_Process i s (clock_common i s)"
  "fsm s = DAP_SWO_Data_PROCESS \<Longrightarrow> step i s = RESP_SWO_Data_Process i s (clock_common i s)"
  "fsm s = DAP_SWJ_Sequence_PROCESS \<Longrightarrow> step i s = RESP_SWJ_Sequence_Process i s (clock_common i s)"
  "fsm s = DAP_JTAG_Sequence_PROCESS \<Longrightarrow> step i s = RESP_JTAG_Sequence_PROCESS i s (clock_common i s)"
  "fsm s = DAP_Transfer_PROCESS \<Longrightarrow> step i s = RESP_Transfer_Process i s (clock_common i s)"
  "fsm s = DAP_TransferBlock_PROCESS \<Longrightarrow> step i s = RESP_TransferBlock_Process i s (clock_common i s)"
  "fsm s = DAP_SWD_Sequence_GetCount \<Longrightarrow> step i s = RESP_Invalid (clock_common i s)"
  "fsm s = DAP_TransferBlock_State \<Longrightarrow> step i s = RESP_Invalid (clock_common i s)"
  "fsm s = DAP_ExecuteCommands_GetNum \<Longrightarrow> step i s = RESP_Invalid (clock_common i s)"
  "fsm s = DAP_QueueCommands_GetNum \<Longrightarrow> step i s = RESP_Invalid (clock_common i s)"
  "fsm s = DAP_Wait_Done \<Longrightarrow> step i s = RESP_Wait_Done i s (clock_common i s)"
  "fsm s = DAP_Wait_Connect_Done \<Longrightarrow> step i s = RESP_Wait_Connect_Done s (clock_common i s)"
  "fsm s = Error_State \<Longrightarrow> step i s = RESP_Invalid (clock_common i s)"
  "fsm s = ProtocolError \<Longrightarrow> step i s = RESP_Invalid (clock_common i s)"
  by (simp_all add: step_def)

lemma bit_select16_eq_0:
  "(bit_select (v::'a::len word) off :: 16 word) = 0 \<longleftrightarrow>
     (bit_select v off :: 8 word) = 0 \<and> (bit_select v (off + 8) :: 8 word) = 0"
proof -
  have "(\<forall>n<16. \<not> bit v (off + n)) \<longleftrightarrow> (\<forall>n<8. \<not> bit v (off + n)) \<and> (\<forall>n<8. \<not> bit v (off + 8 + n))"
  proof (intro iffI conjI allI impI)
    fix n :: nat assume a: "\<forall>n<16. \<not> bit v (off + n)" and "n < 8"
    then show "\<not> bit v (off + n)" by simp
    from a [rule_format, of "8 + n"] \<open>n < 8\<close> show "\<not> bit v (off + 8 + n)" by (simp add: add.assoc)
  next
    fix n :: nat assume a: "(\<forall>n<8. \<not> bit v (off + n)) \<and> (\<forall>n<8. \<not> bit v (off + 8 + n))" and n: "n < 16"
    show "\<not> bit v (off + n)"
    proof (cases "n < 8")
      case True with a show ?thesis by simp
    next
      case False
      from a have "\<forall>n<8. \<not> bit v (off + 8 + n)" by simp
      from this [rule_format, of "n - 8"] n False show ?thesis by (simp add: add.assoc)
    qed
  qed
  then show ?thesis
    by (simp add: bit_eq_iff bit_bit_select)
qed


lemma bit_select16_split:
  "(bit_select (v::'a::len word) off :: 16 word)
     = Cat (bit_select v off :: 8 word) (bit_select v (off + 8) :: 8 word)"
  by (rule bit_word_eqI) (auto simp add: bit_bit_select Cat_def bit_simps add.assoc)

text \<open>Assignments to constants, in a form the simplifier evaluates.\<close>

lemma bit_assign_alt:
  "bit_assign off (x::'b::len word) (v::'a::len word)
     = take_bit off v OR push_bit off (ucast x)
         OR push_bit (off + LENGTH('b)) (drop_bit (off + LENGTH('b)) v)"
  by (rule bit_word_eqI) (auto simp add: bit_bit_assign bit_simps dest: bit_imp_le_length)

lemma bit_assign_numeral:
  "bit_assign off (x::'b::len word) (numeral k :: 'a::len word)
     = take_bit off (numeral k) OR push_bit off (ucast x)
         OR push_bit (off + LENGTH('b)) (drop_bit (off + LENGTH('b)) (numeral k))"
  "bit_assign off x (0 :: 'a::len word) = push_bit off (ucast x)"
  "bit_assign off x (1 :: 'a::len word)
     = take_bit off 1 OR push_bit off (ucast x)
         OR push_bit (off + LENGTH('b)) (drop_bit (off + LENGTH('b)) 1)"
  by (simp_all add: bit_assign_alt)

lemma done_cdc_clock_common [simp]:
  "done_cdc (clock_common i s) = Cat (bit_select (done_cdc s) 1 :: 1 word) (of_bit (dbgif_done i))"
  by (simp add: clock_common_def Let_def)

section \<open>Runs and traces\<close>

lemma length_trace: "length (trace is s) = length is"
  by (induction "is" arbitrary: s) simp_all

lemma run_append: "run (xs @ ys) s = run ys (run xs s)"
  by (induction xs arbitrary: s) simp_all

lemma trace_append: "trace (xs @ ys) s = trace xs s @ trace ys (run xs s)"
  by (induction xs arbitrary: s) simp_all

lemma emitted_append: "emitted (xs @ ys) = emitted xs @ emitted ys"
  by (simp add: emitted_def)

lemmas frame_defs = step_simps state_IDLE_def state_RxParams_def state_RESPOND_def
  dispatch_def RESP_Invalid_def host_byte_def consumer_ready_def
  word_select_def word_assign_def Let_def emitted_def Cat_def

lemma replicate_numeral:
  "replicate 7 x = [x, x, x, x, x, x, x]"
  "replicate 8 x = [x, x, x, x, x, x, x, x]"
  "replicate 11 x = [x, x, x, x, x, x, x, x, x, x, x]"
  "replicate 12 x = [x, x, x, x, x, x, x, x, x, x, x, x]"
  by (simp_all add: numeral_eq_Suc)

lemma replicate_small: "replicate 3 x = [x, x, x]" "replicate 2 x = [x, x]" "replicate 1 x = [x]"
  by (simp_all add: numeral_eq_Suc)

lemma fsm_reset_state: "fsm reset_state = IDLE"
  by (simp add: reset_state_def)

text \<open>For runs from the reset state under a concrete environment.\<close>

lemmas concrete_defs = frame_defs idle_inputs_def engine_answer_def engine_working_def attempt_def
  held_def replicate_small bit_assign_numeral dbg_done_def streamOut_ready_def of_bit_def
  reset_state_def

section \<open>Commands that answer at once\<close>

text \<open>
  C5. A DAP\_Info command with sub-ID 0xFF answers with the maximum packet size: the 16-bit
  value in bytes 2 and 3 of the response is 500 when the v2 transport indication is asserted
  in the dispatch cycle and 64 otherwise, whatever the registers held before and whatever the
  rest of the environment does; in both cases the response has the same framing (opcode echo,
  length byte 2, six bytes announced).
\<close>

theorem info_packet_size:
  assumes "fsm s = IDLE"
  shows "emitted (trace (info_cycles 0xFF e) s) =
           [(DAP_Info, False), (2, False),
            (if isV2 (e 2) then 0xF4 else 0x40, False), (if isV2 (e 2) then 0x01 else 0x00, False),
            (word_select (txBlock s) 4, False), (word_select (txBlock s) 5, True)]
       \<and> (bit_select (txBlock (run (info_cycles 0xFF e) s)) 16 :: 16 word) =
           (if isV2 (e 2) then DAP_V2_MAX_PACKET_SIZE else DAP_V1_MAX_PACKET_SIZE)
       \<and> txLen (run (info_cycles 0xFF e) s) = 6
       \<and> fsm (run (info_cycles 0xFF e) s) = IDLE"
proof (cases "isV2 (e 2)")
  case True
  with assms show ?thesis by (simp add: info_cycles_def frame_defs RESP_Info_def)
next
  case False
  with assms show ?thesis by (simp add: info_cycles_def frame_defs RESP_Info_def)
qed

theorem info_packet_size_witness:
  "fsm reset_state = IDLE
   \<and> (bit_select (txBlock (run (info_cycles 0xFF (\<lambda>k. idle_inputs\<lparr>isV2 := True\<rparr>)) reset_state)) 16
        :: 16 word) = 500
   \<and> (bit_select (txBlock (run (info_cycles 0xFF (\<lambda>k. idle_inputs)) reset_state)) 16 :: 16 word) = 64"
  using info_packet_size [OF fsm_reset_state, of "\<lambda>k. idle_inputs\<lparr>isV2 := True\<rparr>"]
    info_packet_size [OF fsm_reset_state, of "\<lambda>k. idle_inputs"]
  by (simp add: fsm_reset_state idle_inputs_def)

text \<open>
  C7. A DAP\_JTAG\_Sequence command whose sequence count is 0 produces, without waiting for
  anything, a response of exactly two bytes (the opcode echo and the status byte 0, \<open>last\<close>
  on the second), and the \<open>go\<close> register of the engine keeps its value in each of the
  seven cycles of the command: no pin activity is started.
\<close>

theorem jtag_sequence_empty:
  assumes "fsm s = IDLE"
  shows "emitted (trace (jtag_sequence_cycles 0 e) s) = [(DAP_JTAG_Sequence, False), (0, True)]
       \<and> map dbgif_go (trace (jtag_sequence_cycles 0 e) s) = replicate 7 (dbgif_go s)
       \<and> txLen (run (jtag_sequence_cycles 0 e) s) = 2
       \<and> fsm (run (jtag_sequence_cycles 0 e) s) = IDLE \<and> \<not> busy (run (jtag_sequence_cycles 0 e) s)"
  using assms
  by (simp add: jtag_sequence_cycles_def frame_defs RESP_JTAG_Sequence_Setup_def
      RESP_JTAG_Sequence_PROCESS_def replicate_numeral)

theorem jtag_sequence_empty_witness:
  "fsm reset_state = IDLE
   \<and> emitted (trace (jtag_sequence_cycles 0 (\<lambda>k. idle_inputs)) reset_state)
       = [(DAP_JTAG_Sequence, False), (0, True)]
   \<and> map dbgif_go (trace (jtag_sequence_cycles 0 (\<lambda>k. idle_inputs)) reset_state) = replicate 7 False"
proof -
  have g: "\<not> dbgif_go reset_state" by (simp add: reset_state_def)
  from jtag_sequence_empty [OF fsm_reset_state, of "\<lambda>k. idle_inputs"] g fsm_reset_state
  show ?thesis by simp
qed

text \<open>
  C9. DAP\_Disconnect twice in a row: each invocation answers with the normal two-byte
  response (opcode echo, status 0) and leaves the core idle with both session flags
  \<open>connected\<close> and \<open>running\<close> at 0; the second invocation reproduces the flags of the first.
\<close>

theorem disconnect_twice:
  assumes "fsm s = IDLE"
  shows "let s1 = run (disconnect_cycles e) s; s2 = run (disconnect_cycles e') s1 in
           emitted (trace (disconnect_cycles e) s) = [(DAP_Disconnect, False), (0, True)]
         \<and> fsm s1 = IDLE \<and> \<not> busy s1 \<and> \<not> connected s1 \<and> \<not> running s1
         \<and> emitted (trace (disconnect_cycles e') s1) = [(DAP_Disconnect, False), (0, True)]
         \<and> fsm s2 = IDLE \<and> \<not> busy s2 \<and> \<not> connected s2 \<and> \<not> running s2
         \<and> connected s2 = connected s1 \<and> running s2 = running s1"
proof -
  have one: "emitted (trace (disconnect_cycles e) s) = [(DAP_Disconnect, False), (0, True)]
      \<and> fsm (run (disconnect_cycles e) s) = IDLE \<and> \<not> busy (run (disconnect_cycles e) s)
      \<and> \<not> connected (run (disconnect_cycles e) s) \<and> \<not> running (run (disconnect_cycles e) s)"
    if "fsm s = IDLE" for s e
    using that by (simp add: disconnect_cycles_def frame_defs RESP_Disconnect_def)
  from one [OF assms, of e] one [of "run (disconnect_cycles e) s" e'] show ?thesis
    by (simp add: Let_def)
qed

theorem disconnect_twice_witness:
  "fsm (reset_state\<lparr>connected := True, running := True\<rparr>) = IDLE
   \<and> (let s1 = run (disconnect_cycles (\<lambda>k. idle_inputs)) (reset_state\<lparr>connected := True, running := True\<rparr>);
          s2 = run (disconnect_cycles (\<lambda>k. idle_inputs)) s1
      in \<not> connected s1 \<and> \<not> running s1 \<and> \<not> connected s2 \<and> \<not> running s2)"
proof -
  have h: "fsm (reset_state\<lparr>connected := True, running := True\<rparr>) = IDLE"
    by (simp add: reset_state_def)
  from disconnect_twice [OF h, of "\<lambda>k. idle_inputs" "\<lambda>k. idle_inputs"] h show ?thesis
    by (simp add: Let_def)
qed

text \<open>
  C10. A DAP\_Transfer frame with transfer count 0 is answered at once with the three bytes
  0x05, 0x00, 0x01 and a DAP\_TransferBlock frame with a 16-bit transfer count of 0 with the
  four bytes 0x06, 0x01, 0x00, 0x00; in both cases the \<open>go\<close> register of the engine keeps its
  value in every cycle of the command, so the engine is never started.
\<close>

theorem transfer_count_zero:
  assumes "fsm s = IDLE"
  shows "emitted (trace (transfer_cycles index 0 e) s) = [(0x05, False), (0x00, False), (0x01, True)]
       \<and> map dbgif_go (trace (transfer_cycles index 0 e) s) = replicate 8 (dbgif_go s)
       \<and> emitted (trace (transferblock_cycles index 0 0 req e') s) =
           [(0x06, False), (0x01, False), (0x00, False), (0x00, True)]
       \<and> map dbgif_go (trace (transferblock_cycles index 0 0 req e') s) = replicate 11 (dbgif_go s)"
proof -
  have t: "emitted (trace (transfer_cycles index 0 e) s) = [(0x05, False), (0x00, False), (0x01, True)]
       \<and> map dbgif_go (trace (transfer_cycles index 0 e) s) = replicate 8 (dbgif_go s)"
    using assms by (simp add: transfer_cycles_def frame_defs RESP_Transfer_Setup_def replicate_numeral)
  have b: "emitted (trace (transferblock_cycles index 0 0 req e') s) =
           [(0x06, False), (0x01, False), (0x00, False), (0x00, True)]
       \<and> map dbgif_go (trace (transferblock_cycles index 0 0 req e') s) = replicate 11 (dbgif_go s)"
    using assms
    by (simp add: transferblock_cycles_def frame_defs RESP_TransferBlock_Setup_def bit_select16_eq_0
        replicate_numeral)
  from t b show ?thesis by simp
qed

theorem transfer_count_zero_witness:
  "fsm reset_state = IDLE
   \<and> emitted (trace (transfer_cycles 0 0 (\<lambda>k. idle_inputs)) reset_state)
       = [(0x05, False), (0x00, False), (0x01, True)]
   \<and> map dbgif_go (trace (transfer_cycles 0 0 (\<lambda>k. idle_inputs)) reset_state) = replicate 8 False
   \<and> emitted (trace (transferblock_cycles 0 0 0 2 (\<lambda>k. idle_inputs)) reset_state)
       = [(0x06, False), (0x01, False), (0x00, False), (0x00, True)]
   \<and> map dbgif_go (trace (transferblock_cycles 0 0 0 2 (\<lambda>k. idle_inputs)) reset_state) = replicate 11 False"
proof -
  have g: "\<not> dbgif_go reset_state" by (simp add: reset_state_def)
  from transfer_count_zero [OF fsm_reset_state, of 0 "\<lambda>k. idle_inputs" 2 "\<lambda>k. idle_inputs"]
    g fsm_reset_state
  show ?thesis by simp
qed


section \<open>DAP\_SWJ\_Pins\<close>

text \<open>
  C6. DAP\_SWJ\_Pins is to answer with the pin state sampled back from the engine, after the
  handshake of the pin operation. The handler does neither: its setup raises no \<open>go\<close>, and its
  process state moves on to the response after one cycle whether or not the engine reports
  \<open>done\<close> (the register \<open>txBlock\<close> takes the read data only if \<open>done\<close> happens to be high in
  that cycle). With an engine that never reports \<open>done\<close> and shows 0x5A on its read data, the
  frame 10 FF FF 00 00 00 00 is answered with 10 00 within twelve cycles, \<open>go\<close> low in all of
  them.
\<close>

theorem swj_pins_without_handshake:
  "emitted (trace (swj_pins_cycles 0xFF 0xFF (\<lambda>k. engine_silent)) reset_state)
     = [(DAP_SWJ_Pins, False), (0x00, True)]
   \<and> map dbgif_go (trace (swj_pins_cycles 0xFF 0xFF (\<lambda>k. engine_silent)) reset_state)
     = replicate 12 False
   \<and> map dbg_done (trace (swj_pins_cycles 0xFF 0xFF (\<lambda>k. engine_silent)) reset_state)
     = replicate 12 False"
  by (simp add: swj_pins_cycles_def engine_silent_def concrete_defs
      RESP_SWJ_Pins_Setup_def RESP_SWJ_Pins_Process_def replicate_numeral)

section \<open>Value-match reads of DAP\_Transfer\<close>

text \<open>
  The three runs behind C1, each from the reset state with an engine that answers OK with read
  data 0 (the match mask is 0, it can never be written: the branch that would write it asks for
  \<open>txb = 5\<close> inside the states 1 to 4).
\<close>

lemma value_match_first_attempt:
  "(let s = run (transfer_match_cycles 0 @ attempt 1 0 @ attempt 1 0) reset_state in
      fsm s = DAP_Transfer_PROCESS \<and> txb s = 5 \<and> transferCount s = 1 \<and> matchretries s = 0)
   \<and> emitted (trace (transfer_match_cycles 0 @ attempt 1 0 @ attempt 1 0) reset_state) = []
   \<and> map dbgif_go (trace (attempt 1 0 @ attempt 1 0) (run (transfer_match_cycles 0) reset_state))
       = [True, True, False, False, False, False, True, True, False, False, False, False]"
  by (simp add: transfer_match_cycles_def concrete_defs
      RESP_Transfer_Setup_def RESP_Transfer_Process_def Transfer_Interpret_def)

lemma value_mismatch_without_budget:
  "(let s = run (transfer_match_cycles 1 @ attempt 1 0 @ attempt 1 0) reset_state in
      fsm s = DAP_Transfer_PROCESS \<and> txb s = 5 \<and> matchRetry s = 0
      \<and> (word_select (txBlock s) 2 :: 8 word) = 0x01)
   \<and> emitted (trace (transfer_match_cycles 1 @ attempt 1 0 @ attempt 1 0) reset_state) = []"
  by (simp add: transfer_match_cycles_def concrete_defs
      RESP_Transfer_Setup_def RESP_Transfer_Process_def Transfer_Interpret_def)

lemma value_mismatch_with_budget:
  "(let s = run (transfer_configure_cycles 0 3 @ transfer_match_cycles 1 @ attempt 1 0) reset_state in
      fsm s = DAP_Transfer_PROCESS \<and> txb s = 8 \<and> matchRetry s = 3 \<and> matchretries s = 0
      \<and> (word_select (txBlock s) 2 :: 8 word) = 0x21)"
  by (simp add: transfer_match_cycles_def transfer_configure_cycles_def concrete_defs
      RESP_Transfer_Setup_def RESP_Transfer_Process_def Transfer_Interpret_def
      RESP_TransferConfigure_def RESP_Wait_Done_def bit_select16_split)

text \<open>
  C1. A value-match read is to go on without a retry when the first read matches, and to be
  retried exactly \<open>matchRetry\<close> times when it never matches, then to end with the
  value-mismatch bit (bit 4 of the status byte). The handler does the opposite. When the read
  matches (expected value 0), it issues the same element again after every completed attempt
  (\<open>go\<close> rises a second time, the transfer count stays 1, no response byte appears). When the
  read never matches (expected value 1) and \<open>matchRetry\<close> is 0, it does the same and never
  sets a mismatch bit. When it never matches and \<open>matchRetry\<close> is 3, the first attempt ends
  the element with no retry at all (\<open>matchretries\<close> is never counted up), and the status byte
  is 0x21: the bit set is bit 5, not bit 4.
\<close>

theorem value_match_defect:
  "(let s = run (transfer_match_cycles 0 @ attempt 1 0 @ attempt 1 0) reset_state in
      fsm s = DAP_Transfer_PROCESS \<and> txb s = 5 \<and> transferCount s = 1 \<and> matchretries s = 0)
   \<and> emitted (trace (transfer_match_cycles 0 @ attempt 1 0 @ attempt 1 0) reset_state) = []
   \<and> map dbgif_go (trace (attempt 1 0 @ attempt 1 0) (run (transfer_match_cycles 0) reset_state))
       = [True, True, False, False, False, False, True, True, False, False, False, False]
   \<and> (let s = run (transfer_match_cycles 1 @ attempt 1 0 @ attempt 1 0) reset_state in
      fsm s = DAP_Transfer_PROCESS \<and> txb s = 5 \<and> matchRetry s = 0
      \<and> (word_select (txBlock s) 2 :: 8 word) = 0x01)
   \<and> emitted (trace (transfer_match_cycles 1 @ attempt 1 0 @ attempt 1 0) reset_state) = []
   \<and> (let s = run (transfer_configure_cycles 0 3 @ transfer_match_cycles 1 @ attempt 1 0) reset_state in
      fsm s = DAP_Transfer_PROCESS \<and> txb s = 8 \<and> matchRetry s = 3 \<and> matchretries s = 0
      \<and> (word_select (txBlock s) 2 :: 8 word) = 0x21)"
  using value_match_first_attempt value_mismatch_without_budget value_mismatch_with_budget
  by (simp only: simp_thms)

section \<open>The response streamer\<close>

text \<open>No handler but the streamer and the idle state assigns the cursor \<open>txedLen\<close>.\<close>

lemmas setup_defs = RESP_Info_def RESP_HostStatus_def RESP_Connect_Setup_def RESP_Disconnect_def
  RESP_WriteABORT_def RESP_Delay_def RESP_ResetTarget_def RESP_SWJ_Pins_Setup_def RESP_SWJ_Clock_def
  RESP_SWJ_Sequence_Setup_def RESP_SWD_Configure_def RESP_SWO_Transport_def RESP_SWO_Mode_def
  RESP_SWO_Baudrate_def RESP_SWO_Control_def RESP_SWO_Status_def RESP_SWO_ExtendedStatus_def
  RESP_SWO_Data_Setup_def RESP_JTAG_Sequence_Setup_def RESP_JTAG_Configure_def RESP_JTAG_IDCODE_def
  RESP_TransferConfigure_def RESP_Transfer_Setup_def RESP_TransferBlock_Setup_def

lemma txedLen_Invalid [simp]: "txedLen (RESP_Invalid n) = txedLen n"
  by (simp add: RESP_Invalid_def)

lemma txedLen_dispatch: "txedLen (dispatch i s n) = txedLen n"
  by (simp add: dispatch_def setup_defs Let_def)

lemma txedLen_RxParams: "txedLen (state_RxParams i s n) = txedLen n"
  by (simp add: state_RxParams_def txedLen_dispatch Let_def)

lemma txedLen_process:
  "txedLen (RESP_SWJ_Pins_Process i s n) = txedLen n"
  "txedLen (RESP_SWO_Data_Process i s n) = txedLen n"
  "txedLen (RESP_SWJ_Sequence_Process i s n) = txedLen n"
  "txedLen (RESP_JTAG_Sequence_PROCESS i s n) = txedLen n"
  "txedLen (RESP_Wait_Done i s n) = txedLen n"
  "txedLen (RESP_Wait_Connect_Done s n) = txedLen n"
  by (simp_all add: RESP_SWJ_Pins_Process_def RESP_SWO_Data_Process_def RESP_SWJ_Sequence_Process_def
      RESP_JTAG_Sequence_PROCESS_def RESP_Wait_Done_def RESP_Wait_Connect_Done_def Let_def)

lemma txedLen_Transfer: "txedLen (RESP_Transfer_Process i s n) = txedLen n"
  by (simp add: RESP_Transfer_Process_def Transfer_Interpret_def Let_def)

lemma txedLen_TransferBlock: "txedLen (RESP_TransferBlock_Process i s n) = txedLen n"
  by (simp add: RESP_TransferBlock_Process_def Let_def)

lemma step_txedLen:
  "fsm s \<noteq> IDLE \<Longrightarrow> fsm s \<noteq> RESPOND \<Longrightarrow> txedLen (step i s) = txedLen s"
  by (cases "fsm s")
    (simp_all add: step_simps txedLen_RxParams txedLen_process txedLen_Transfer txedLen_TransferBlock)

lemma txedLen_IDLE: "txedLen (state_IDLE i s n) = 0"
  by (simp add: state_IDLE_def Let_def)

lemma step_cursor_inv: "cursor_inv s \<Longrightarrow> cursor_inv (step i s)"
proof -
  assume inv: "cursor_inv s"
  consider "fsm s = IDLE" | "fsm s = RESPOND" | "fsm s \<noteq> IDLE" "fsm s \<noteq> RESPOND" by blast
  then show ?thesis
  proof cases
    case 1
    then show ?thesis by (simp add: cursor_inv_def step_simps txedLen_IDLE)
  next
    case 2
    with inv show ?thesis
      by (auto simp add: cursor_inv_def step_simps state_RESPOND_def inc_le)
  next
    case 3
    with inv have "txedLen (step i s) = 0" by (simp add: step_txedLen cursor_inv_def)
    then show ?thesis by (simp add: cursor_inv_def)
  qed
qed

lemma reachable_cursor_inv: "s \<in> reachable \<Longrightarrow> cursor_inv s"
  by (induction rule: reachable.induct) (simp_all add: step_cursor_inv, simp add: cursor_inv_def reset_state_def)

lemma run_reachable: "s \<in> reachable \<Longrightarrow> run is s \<in> reachable"
  by (induction "is" arbitrary: s) (simp_all add: reachable.clock)

text \<open>
  C8. In every reachable state the cursor \<open>txedLen\<close> is at most the declared length
  \<open>txLen\<close>. In the streamer state a byte is presented in the next cycle exactly if the cursor
  is below the length and the consumer is ready; it is the byte of \<open>txBlock\<close> at the cursor,
  the cursor advances by one, and \<open>last\<close> is set on it exactly if cursor + 1 equals the
  declared length.
\<close>

theorem response_cursor:
  assumes "s \<in> reachable"
  shows "txedLen s \<le> txLen s
       \<and> (fsm s = RESPOND \<longrightarrow>
            (streamIn_valid (step i s) \<longleftrightarrow> txedLen s < txLen s \<and> streamIn_ready i)
          \<and> (streamIn_valid (step i s) \<longrightarrow>
                streamIn_payload (step i s) = word_select (txBlock s) (unat (txedLen s))
              \<and> txedLen (step i s) = txedLen s + 1
              \<and> (streamIn_last (step i s) \<longleftrightarrow> unat (txedLen s) + 1 = unat (txLen s))))"
  using reachable_cursor_inv [OF assms]
  by (auto simp add: cursor_inv_def step_simps state_RESPOND_def)


theorem response_cursor_witness:
  "run [host_byte DAP_Disconnect True True idle_inputs, idle_inputs] reset_state \<in> reachable
   \<and> fsm (run [host_byte DAP_Disconnect True True idle_inputs, idle_inputs] reset_state) = RESPOND
   \<and> txedLen (run [host_byte DAP_Disconnect True True idle_inputs, idle_inputs] reset_state) = 0
   \<and> txLen (run [host_byte DAP_Disconnect True True idle_inputs, idle_inputs] reset_state) = 2
   \<and> streamIn_valid (step (consumer_ready idle_inputs)
         (run [host_byte DAP_Disconnect True True idle_inputs, idle_inputs] reset_state))
   \<and> \<not> streamIn_last (step (consumer_ready idle_inputs)
         (run [host_byte DAP_Disconnect True True idle_inputs, idle_inputs] reset_state))"
proof -
  let ?s = "run [host_byte DAP_Disconnect True True idle_inputs, idle_inputs] reset_state"
  have r: "?s \<in> reachable" by (rule run_reachable) (rule reachable.reset)
  have f: "fsm ?s = RESPOND" "txedLen ?s = 0" "txLen ?s = 2"
    by (simp_all add: concrete_defs RESP_Disconnect_def)
  have i: "streamIn_ready (consumer_ready idle_inputs)" by (simp add: consumer_ready_def)
  from response_cursor [OF r, of "consumer_ready idle_inputs"] r f i show ?thesis by simp
qed

section \<open>Framing errors\<close>

lemma idle_first_undeclared:
  assumes "fsm s = IDLE" "declared_length op = 0"
  shows "invalid_pending (dbgif_go s) (step (host_byte op True l e) s)
       \<or> invalid_next (dbgif_go s) (step (host_byte op True l e) s)"
  using assms
  by (auto simp add: declared_length_def invalid_pending_def invalid_next_def step_simps state_IDLE_def
      host_byte_def Let_def RESP_Invalid_def word_select_def word_assign_def split: if_splits)

lemma idle_first_last:
  assumes "fsm s = IDLE" "2 \<le> declared_length op"
  shows "invalid_next (dbgif_go s) (step (host_byte op True True e) s)"
  using assms
  by (auto simp add: declared_length_def invalid_next_def step_simps state_IDLE_def
      host_byte_def Let_def RESP_Invalid_def split: if_splits)

lemma idle_first_more:
  assumes "fsm s = IDLE" "2 \<le> declared_length op"
  shows "rx_collecting (dbgif_go s) (declared_length op) 1 (step (host_byte op True False e) s)"
  using assms
  by (auto simp add: declared_length_def rx_collecting_def step_simps state_IDLE_def
      host_byte_def Let_def RESP_Invalid_def split: if_splits)

lemma invalid_next_step:
  "invalid_next g s \<Longrightarrow> invalid_pending g (step i s)"
  by (auto simp add: invalid_next_def invalid_pending_def step_simps RESP_Invalid_def
      word_select_def word_assign_def)

lemma invalid_pending_emit:
  assumes "invalid_pending g s" "streamIn_ready i"
  shows "streamIn_valid (step i s) \<and> streamIn_payload (step i s) = 0xFF \<and> streamIn_last (step i s)
       \<and> dbgif_go (step i s) = g \<and> fsm (step i s) = RESPOND \<and> txedLen (step i s) = 1
       \<and> txLen (step i s) = 1"
  using assms by (simp add: invalid_pending_def step_simps state_RESPOND_def)

lemma respond_finish:
  assumes "fsm s = RESPOND" "txedLen s = txLen s"
  shows "fsm (step i s) = IDLE \<and> \<not> busy (step i s) \<and> \<not> streamIn_valid (step i s)
       \<and> dbgif_go (step i s) = dbgif_go s"
  using assms by (simp add: step_simps state_RESPOND_def)

lemma idle_quiet:
  assumes "fsm s = IDLE" "\<not> streamOut_valid i"
  shows "fsm (step i s) = IDLE \<and> \<not> busy (step i s) \<and> \<not> streamIn_valid (step i s)
       \<and> dbgif_go (step i s) = dbgif_go s"
  using assms by (simp add: step_simps state_IDLE_def Let_def)

lemma unat_rxedLen_Suc:
  fixes x :: "3 word"
  assumes "unat x + 1 < unat (y :: 3 word)"
  shows "unat (x + 1) = unat x + 1"
proof -
  have "unat y < 2 ^ LENGTH(3)" by (rule unsigned_less)
  then have "unat y < 8" by simp
  with assms have "unat x + unat (1 :: 3 word) < 2 ^ LENGTH(3)" by simp
  then show ?thesis by (simp add: unat_add_lem [THEN iffD1])
qed

lemma rx_collect_step:
  assumes "rx_collecting g L k s" "k + 1 < L"
  shows "rx_collecting g L (k + 1) (step (host_byte b False False e) s)"
proof -
  from assms have ne: "rxedLen s \<noteq> rxLen s" by (auto simp add: rx_collecting_def)
  from assms have u: "unat (rxedLen s + 1) = k + 1"
    using unat_rxedLen_Suc [of "rxedLen s" "rxLen s"] by (simp add: rx_collecting_def)
  from assms ne u show ?thesis
    by (simp add: rx_collecting_def step_simps state_RxParams_def host_byte_def Let_def)
qed

lemma rx_truncated_step:
  assumes "rx_collecting g L k s" "k + 1 < L"
  shows "invalid_pending g (step (host_byte b False True e) s)"
proof -
  from assms have ne: "rxedLen s \<noteq> rxLen s" by (auto simp add: rx_collecting_def)
  from assms ne show ?thesis
    by (simp add: rx_collecting_def invalid_pending_def step_simps state_RxParams_def host_byte_def
        Let_def RESP_Invalid_def word_select_def word_assign_def)
qed

lemma feed_truncated:
  assumes "rx_collecting g L k s" "xs \<noteq> []" "k + length xs < L"
  shows "invalid_pending g (run (feed False xs) s)
       \<and> emitted (trace (feed False xs) s) = []
       \<and> map dbgif_go (trace (feed False xs) s) = replicate (length xs) g"
  using assms
proof (induction xs arbitrary: s k)
  case Nil
  then show ?case by simp
next
  case (Cons x xs)
  obtain b e where x: "x = (b, e)" by (cases x)
  show ?case
  proof (cases "xs = []")
    case True
    with Cons.prems have "invalid_pending g (step (host_byte b False True e) s)"
      by (intro rx_truncated_step [where k = k and L = L]) simp_all
    with True x show ?thesis by (simp add: invalid_pending_def emitted_def)
  next
    case False
    with Cons.prems have c: "rx_collecting g L (k + 1) (step (host_byte b False False e) s)"
      by (intro rx_collect_step) simp_all
    from Cons.prems have "k + 1 + length xs < L" by simp
    from Cons.IH [OF c False this] c False x show ?thesis
      by (simp add: rx_collecting_def emitted_def)
  qed
qed


lemma drain_ready: "streamIn_ready (consumer_ready (no_packet i))"
  "\<not> streamOut_valid (consumer_ready (no_packet i))"
  by (simp_all add: consumer_ready_def no_packet_def)

lemma drain_pending:
  assumes "invalid_pending g s"
  shows "emitted (trace (drain e) s) = [(0xFF, True)]
       \<and> map dbgif_go (trace (drain e) s) = [g, g, g]
       \<and> fsm (run (drain e) s) = IDLE \<and> \<not> busy (run (drain e) s)"
proof -
  let ?d0 = "consumer_ready (no_packet (e 0))"
  let ?d1 = "consumer_ready (no_packet (e 1))"
  let ?d2 = "consumer_ready (no_packet (e 2))"
  let ?s1 = "step ?d0 s"
  let ?s2 = "step ?d1 ?s1"
  let ?s3 = "step ?d2 ?s2"
  have 1: "streamIn_valid ?s1 \<and> streamIn_payload ?s1 = 0xFF \<and> streamIn_last ?s1
       \<and> dbgif_go ?s1 = g \<and> fsm ?s1 = RESPOND \<and> txedLen ?s1 = 1 \<and> txLen ?s1 = 1"
    using assms by (intro invalid_pending_emit) (simp_all add: drain_ready)
  then have 2: "fsm ?s2 = IDLE \<and> \<not> busy ?s2 \<and> \<not> streamIn_valid ?s2 \<and> dbgif_go ?s2 = g"
    using respond_finish [of ?s1 ?d1] by simp
  then have 3: "fsm ?s3 = IDLE \<and> \<not> busy ?s3 \<and> \<not> streamIn_valid ?s3 \<and> dbgif_go ?s3 = g"
    using idle_quiet [of ?s2 ?d2] by (simp add: drain_ready)
  from 1 2 3 show ?thesis by (simp add: drain_def emitted_def)
qed

lemma drain_next:
  assumes "invalid_next g s"
  shows "emitted (trace (drain e) s) = [(0xFF, True)]
       \<and> map dbgif_go (trace (drain e) s) = [g, g, g]
       \<and> fsm (run (drain e) s) = IDLE \<and> \<not> busy (run (drain e) s)"
proof -
  let ?d0 = "consumer_ready (no_packet (e 0))"
  let ?d1 = "consumer_ready (no_packet (e 1))"
  let ?d2 = "consumer_ready (no_packet (e 2))"
  let ?s1 = "step ?d0 s"
  let ?s2 = "step ?d1 ?s1"
  let ?s3 = "step ?d2 ?s2"
  have 1: "invalid_pending g ?s1" using assms by (rule invalid_next_step)
  then have 2: "streamIn_valid ?s2 \<and> streamIn_payload ?s2 = 0xFF \<and> streamIn_last ?s2
       \<and> dbgif_go ?s2 = g \<and> fsm ?s2 = RESPOND \<and> txedLen ?s2 = 1 \<and> txLen ?s2 = 1"
    by (intro invalid_pending_emit) (simp_all add: drain_ready)
  then have 3: "fsm ?s3 = IDLE \<and> \<not> busy ?s3 \<and> \<not> streamIn_valid ?s3 \<and> dbgif_go ?s3 = g"
    using respond_finish [of ?s2 ?d2] by simp
  from 1 2 3 show ?thesis by (simp add: drain_def emitted_def invalid_pending_def)
qed

lemma replicate_numeral4: "replicate 4 x = [x, x, x, x]"
  by (simp add: numeral_eq_Suc)

lemma length_feed: "length (feed f xs) = length xs"
  by (induction f xs rule: feed.induct) simp_all

lemma length_drain: "length (drain e) = 3"
  by (simp add: drain_def)

lemma replicate_snoc3: "replicate n x @ [x, x, x] = replicate (n + 3) x"
  by (simp only: replicate_add) (simp add: numeral_3_eq_3)


text \<open>
  C3. From the idle state, a packet whose opcode has no declared frame length (an unknown
  opcode), whatever its \<open>last\<close> flag, and a packet that ends (asserts \<open>last\<close>) before the
  declared frame length of its opcode is reached, are both answered with the single byte 0xFF;
  the \<open>go\<close> register of the engine keeps its value in every cycle, and after the response
  the core is idle and not busy, ready for the next packet.
\<close>

theorem invalid_frame:
  assumes idle: "fsm s = IDLE"
  shows "(declared_length op = 0 \<longrightarrow> answers_invalid s (host_byte op True l e0 # drain e))
       \<and> (xs \<noteq> [] \<and> length xs < declared_length (fst (hd xs)) \<longrightarrow>
            answers_invalid s (feed True xs @ drain e))"
proof -
  let ?g = "dbgif_go s"
  have tail: "emitted (trace (drain e) t) = [(0xFF, True)]
       \<and> map dbgif_go (trace (drain e) t) = [?g, ?g, ?g]
       \<and> fsm (run (drain e) t) = IDLE \<and> \<not> busy (run (drain e) t)"
    if "invalid_pending ?g t \<or> invalid_next ?g t" for t
    using that drain_pending [of ?g t e] drain_next [of ?g t e] by blast
  have unknown: "answers_invalid s (host_byte op True l e0 # drain e)" if "declared_length op = 0"
  proof -
    let ?s1 = "step (host_byte op True l e0) s"
    from idle that have 1: "invalid_pending ?g ?s1 \<or> invalid_next ?g ?s1"
      by (rule idle_first_undeclared)
    then have "\<not> streamIn_valid ?s1 \<and> dbgif_go ?s1 = ?g"
      by (auto simp add: invalid_pending_def invalid_next_def)
    with tail [OF 1] show ?thesis
      by (simp add: answers_invalid_def emitted_def drain_def replicate_numeral4)
  qed
  have truncated: "answers_invalid s (feed True xs @ drain e)"
    if ne: "xs \<noteq> []" and short: "length xs < declared_length (fst (hd xs))"
  proof -
    from ne obtain op' e' ys where xs: "xs = (op', e') # ys" by (cases xs) auto
    have front: "(invalid_pending ?g (run (feed True xs) s) \<or> invalid_next ?g (run (feed True xs) s))
         \<and> emitted (trace (feed True xs) s) = []
         \<and> map dbgif_go (trace (feed True xs) s) = replicate (length xs) ?g"
    proof (cases "ys = []")
      case True
      with short xs have "2 \<le> declared_length op'" by simp
      with idle have "invalid_next ?g (step (host_byte op' True True e') s)"
        by (rule idle_first_last)
      with True xs show ?thesis by (simp add: emitted_def invalid_next_def)
    next
      case False
      with short xs have len: "1 + length ys < declared_length op'" by simp
      then have "2 \<le> declared_length op'" by simp
      with idle have c: "rx_collecting ?g (declared_length op') 1 (step (host_byte op' True False e') s)"
        by (rule idle_first_more)
      from feed_truncated [OF c False len] c False xs show ?thesis
        by (simp add: emitted_def rx_collecting_def)
    qed
    from front tail [of "run (feed True xs) s"] show ?thesis
      by (simp add: answers_invalid_def run_append trace_append emitted_append replicate_snoc3
          length_feed length_drain)
  qed
  from unknown truncated show ?thesis by blast
qed

theorem invalid_frame_witness:
  "fsm reset_state = IDLE
   \<and> declared_length 0x55 = 0
   \<and> answers_invalid reset_state (host_byte 0x55 True False idle_inputs # drain (\<lambda>k. idle_inputs))
   \<and> length [(DAP_Transfer, idle_inputs), (0, idle_inputs)] < declared_length DAP_Transfer
   \<and> answers_invalid reset_state
        (feed True [(DAP_Transfer, idle_inputs), (0, idle_inputs)] @ drain (\<lambda>k. idle_inputs))"
proof -
  have d: "declared_length 0x55 = 0" "declared_length DAP_Transfer = 3"
    by (simp_all add: declared_length_def)
  from invalid_frame [OF fsm_reset_state, of "0x55" False idle_inputs "\<lambda>k. idle_inputs"
      "[(DAP_Transfer, idle_inputs), (0, idle_inputs)]"] d fsm_reset_state
  show ?thesis by simp
qed

end
